theory Spec2Isabelle
  imports Main "HOL-Library.Char_ord" "HOL-Library.List_Lexorder"
begin

section \<open>Python values and string operations\<close>

text \<open>
  Python strings are modelled as \<open>string\<close>, one \<open>char\<close> per code point (code points
  below 256). The exceptions the code can meet are values of \<open>excecao\<close>; a computation
  that may raise returns \<open>excecao + 'a\<close>.
\<close>

datatype excecao = ValueError | TypeError | IndexError | JSONDecodeError
  | RecursionError | ErroBanco | IntegrityError

definition exc_bind :: "excecao + 'a \<Rightarrow> ('a \<Rightarrow> excecao + 'b) \<Rightarrow> excecao + 'b" where
  "exc_bind m f = (case m of Inl e \<Rightarrow> Inl e | Inr x \<Rightarrow> f x)"

text \<open>\<open>str.isspace\<close> on one character, for code points below 256.\<close>

definition py_isspace :: "char \<Rightarrow> bool" where
  "py_isspace c =
     (let n = (of_char c :: nat)
      in (9 \<le> n \<and> n \<le> 13) \<or> (28 \<le> n \<and> n \<le> 32) \<or> n = 133 \<or> n = 160)"

text \<open>\<open>s.strip()\<close>: leading and trailing whitespace removed.\<close>

definition py_strip :: "string \<Rightarrow> string" where
  "py_strip s = rev (dropWhile py_isspace (rev (dropWhile py_isspace s)))"

text \<open>\<open>s.split(sep)\<close> for a one-character separator; \<open>''.split(',')\<close> is \<open>['']\<close>.\<close>

fun py_split :: "char \<Rightarrow> string \<Rightarrow> string list" where
  "py_split sep [] = [[]]"
| "py_split sep (c # cs) =
     (if c = sep then [] # py_split sep cs
      else (case py_split sep cs of
              [] \<Rightarrow> [[c]]
            | w # ws \<Rightarrow> (c # w) # ws))"

text \<open>\<open>sep.join(xs)\<close> on a list of strings.\<close>

fun py_join :: "string \<Rightarrow> string list \<Rightarrow> string" where
  "py_join sep [] = []"
| "py_join sep [x] = x"
| "py_join sep (x # y # ys) = x @ sep @ py_join sep (y # ys)"

text \<open>
  The values \<open>json.loads\<close> can return. A float keeps mantissa and exponent; the code
  never inspects it. A dict is the list of its items in iteration order.
\<close>

datatype pyval = PNone | PBool bool | PInt int | PFloat int int | PStr string
  | PList "pyval list" | PDict "(string \<times> pyval) list"

text \<open>\<open>len(v)\<close>: defined on strings, lists and dicts, a TypeError otherwise.\<close>

fun py_len :: "pyval \<Rightarrow> excecao + nat" where
  "py_len (PStr s) = Inr (length s)"
| "py_len (PList vs) = Inr (length vs)"
| "py_len (PDict kvs) = Inr (length kvs)"
| "py_len v = Inl TypeError"

fun as_str :: "pyval \<Rightarrow> string option" where
  "as_str (PStr s) = Some s"
| "as_str v = None"

text \<open>
  \<open>sep.join(v)\<close> on a decoded value: iterates a list, the characters of a string or the
  keys of a dict; an item that is not a string is a TypeError.
\<close>

fun py_join_val :: "string \<Rightarrow> pyval \<Rightarrow> excecao + string" where
  "py_join_val sep (PStr s) = Inr (py_join sep (map (\<lambda>c. [c]) s))"
| "py_join_val sep (PList vs) =
     (case those (map as_str vs) of
        None \<Rightarrow> Inl TypeError
      | Some xs \<Rightarrow> Inr (py_join sep xs))"
| "py_join_val sep (PDict kvs) = Inr (py_join sep (map fst kvs))"
| "py_join_val sep v = Inl TypeError"

text \<open>
  \<open>json.dumps(senhas, ensure_ascii=False)\<close> on a list of strings: each string quoted,
  with the quote, the backslash and the control characters escaped, the items separated
  by a comma and a space.
\<close>

definition hex_digit :: "nat \<Rightarrow> char" where
  "hex_digit n = (if n < 16 then ''0123456789abcdef'' ! n else CHR ''?'')"

definition json_escape_char :: "char \<Rightarrow> string" where
  "json_escape_char c =
     (let n = (of_char c :: nat) in
      if n = 34 then [CHR 0x5C, CHR 0x22]
      else if n = 92 then [CHR 0x5C, CHR 0x5C]
      else if n = 8 then [CHR 0x5C, CHR ''b'']
      else if n = 12 then [CHR 0x5C, CHR ''f'']
      else if n = 10 then [CHR 0x5C, CHR ''n'']
      else if n = 13 then [CHR 0x5C, CHR ''r'']
      else if n = 9 then [CHR 0x5C, CHR ''t'']
      else if n < 32 then
        [CHR 0x5C, CHR ''u'', CHR ''0'', CHR ''0'', hex_digit (n div 16), hex_digit (n mod 16)]
      else [c])"

definition json_dumps_str :: "string \<Rightarrow> string" where
  "json_dumps_str s = [CHR 0x22] @ concat (map json_escape_char s) @ [CHR 0x22]"

definition json_dumps :: "string list \<Rightarrow> string" where
  "json_dumps senhas = ''['' @ py_join '', '' (map json_dumps_str senhas) @ '']''"

section \<open>The platform and the store\<close>

text \<open>
  What the code takes from its platform: the JSON decoder, which returns the decoded
  value or raises (a JSONDecodeError on a text that is not JSON, a RecursionError on a
  text nested too deep), werkzeug's password hashing, the connection string, whether
  the store can be reached, whether a query or a write statement executes, and the
  store's clock (CURRENT_TIMESTAMP).
\<close>

record plataforma =
  json_loads :: "string \<Rightarrow> excecao + pyval"
  generate_password_hash :: "string \<Rightarrow> string"
  check_password_hash :: "string \<Rightarrow> string \<Rightarrow> bool"
  connection_string :: string
  conexao_ok :: bool
  consulta_ok :: bool
  escrita_ok :: bool
  agora :: nat

text \<open>The rows of table \<open>usuarios\<close> and of table \<open>registros\<close>.\<close>

record usuarios_row =
  u_id :: int
  u_username :: string
  u_password_hash :: string
  u_nome_completo :: string
  u_unidade :: string
  u_tipo_usuario :: string
  u_ativo :: int
  u_data_criacao :: nat
  u_ultimo_login :: "nat option"

record registros_row =
  r_id :: int
  r_carteirinha :: string
  r_unidade :: string
  r_senhas :: string
  r_usuario_id :: int
  r_data_criacao :: nat

text \<open>
  The store: both tables in insertion order, and the AUTOINCREMENT counters
  (the largest id ever given in each table).
\<close>

record banco =
  usuarios :: "usuarios_row list"
  registros :: "registros_row list"
  seq_usuarios :: int
  seq_registros :: int

text \<open>A result row of a query, as the tuple of its columns.\<close>

datatype sqlval = SNull | SInt int | SText string

definition tuple_get :: "'a list \<Rightarrow> nat \<Rightarrow> excecao + 'a" where
  "tuple_get row i = (if i < length row then Inr (row ! i) else Inl IndexError)"

definition get_connection :: "plataforma \<Rightarrow> excecao + unit" where
  "get_connection env =
     (if connection_string env = [] then Inl ValueError
      else if conexao_ok env then Inr ()
      else Inl ErroBanco)"

definition executar_consulta :: "plataforma \<Rightarrow> excecao + unit" where
  "executar_consulta env = (if consulta_ok env then Inr () else Inl ErroBanco)"

definition executar_escrita :: "plataforma \<Rightarrow> excecao + unit" where
  "executar_escrita env = (if escrita_ok env then Inr () else Inl ErroBanco)"

text \<open>AUTOINCREMENT: one more than the largest id the table has ever held.\<close>

definition proximo_id :: "int \<Rightarrow> int list \<Rightarrow> int" where
  "proximo_id seq ids = fold max ids seq + 1"

text \<open>
  ORDER BY data_criacao DESC: the newest row first; rows of the same timestamp (the
  clock counts seconds) stay in the order of their insertion, the sort being stable.
\<close>

definition ordenar_registros :: "registros_row list \<Rightarrow> registros_row list" where
  "ordenar_registros rows = sort_key (\<lambda>r. - int (r_data_criacao r)) rows"

section \<open>database.py: DatabaseManager\<close>

subsection \<open>inserir_registro\<close>

definition inserir_registro_corpo ::
  "plataforma \<Rightarrow> banco \<Rightarrow> string \<Rightarrow> string \<Rightarrow> string list \<Rightarrow> int \<Rightarrow> excecao + (bool \<times> banco)" where
  "inserir_registro_corpo env db carteirinha unidade senhas usuario_id =
     (if carteirinha = [] \<or> unidade = [] \<or> senhas = [] \<or> usuario_id = 0 then Inr (False, db)
      else if length senhas > 5 then Inr (False, db)
      else
        let senhas_json = json_dumps senhas in
        exc_bind (get_connection env) (\<lambda>_.
        exc_bind (executar_escrita env) (\<lambda>_.
          let novo = proximo_id (seq_registros db) (map r_id (registros db)) in
          Inr (True,
               db\<lparr>registros := registros db @
                     [\<lparr>r_id = novo, r_carteirinha = carteirinha, r_unidade = unidade,
                       r_senhas = senhas_json, r_usuario_id = usuario_id,
                       r_data_criacao = agora env\<rparr>],
                  seq_registros := novo\<rparr>))))"

definition inserir_registro ::
  "plataforma \<Rightarrow> banco \<Rightarrow> string \<Rightarrow> string \<Rightarrow> string list \<Rightarrow> int \<Rightarrow> bool \<times> banco" where
  "inserir_registro env db carteirinha unidade senhas usuario_id =
     (case inserir_registro_corpo env db carteirinha unidade senhas usuario_id of
        Inl e \<Rightarrow> (False, db)
      | Inr res \<Rightarrow> res)"

subsection \<open>obter_todos_registros, obter_registros_por_unidade\<close>

text \<open>The dict built for one row.\<close>

record registro =
  reg_id :: int
  reg_carteirinha :: string
  reg_unidade :: string
  reg_senhas :: pyval
  reg_usuario_id :: int
  reg_data_criacao :: nat
  reg_total_senhas :: nat

text \<open>The body of the inner \<open>try\<close>: decode the passwords, take their length.\<close>

definition decodificar_linha :: "plataforma \<Rightarrow> registros_row \<Rightarrow> excecao + registro" where
  "decodificar_linha env row =
     exc_bind (json_loads env (r_senhas row)) (\<lambda>senhas.
     exc_bind (py_len senhas) (\<lambda>n.
       Inr \<lparr>reg_id = r_id row, reg_carteirinha = r_carteirinha row,
            reg_unidade = r_unidade row, reg_senhas = senhas,
            reg_usuario_id = r_usuario_id row, reg_data_criacao = r_data_criacao row,
            reg_total_senhas = n\<rparr>))"

text \<open>
  The inner \<open>except (json.JSONDecodeError, TypeError, ValueError)\<close>: the exceptions
  for which the loop skips the row and goes on.
\<close>

definition except_decodificacao :: "excecao \<Rightarrow> bool" where
  "except_decodificacao e = (e = JSONDecodeError \<or> e = TypeError \<or> e = ValueError)"

text \<open>
  The loop over the rows. A row whose decoding raises one of these exceptions is
  skipped; any other exception leaves the loop and reaches the handler of the whole
  function.
\<close>

fun decodificar_linhas :: "plataforma \<Rightarrow> registros_row list \<Rightarrow> excecao + registro list" where
  "decodificar_linhas env [] = Inr []"
| "decodificar_linhas env (row # rows) =
     (case decodificar_linha env row of
        Inl e \<Rightarrow> if except_decodificacao e then decodificar_linhas env rows else Inl e
      | Inr reg \<Rightarrow> exc_bind (decodificar_linhas env rows) (\<lambda>regs. Inr (reg # regs)))"

definition obter_todos_registros_corpo :: "plataforma \<Rightarrow> banco \<Rightarrow> excecao + registro list" where
  "obter_todos_registros_corpo env db =
     exc_bind (get_connection env) (\<lambda>_.
     exc_bind (executar_consulta env) (\<lambda>_.
       decodificar_linhas env (ordenar_registros (registros db))))"

definition obter_todos_registros :: "plataforma \<Rightarrow> banco \<Rightarrow> registro list" where
  "obter_todos_registros env db =
     (case obter_todos_registros_corpo env db of Inl e \<Rightarrow> [] | Inr regs \<Rightarrow> regs)"

definition obter_registros_por_unidade_corpo ::
  "plataforma \<Rightarrow> banco \<Rightarrow> string \<Rightarrow> excecao + registro list" where
  "obter_registros_por_unidade_corpo env db unidade =
     exc_bind (get_connection env) (\<lambda>_.
     exc_bind (executar_consulta env) (\<lambda>_.
       decodificar_linhas env
         (ordenar_registros (filter (\<lambda>r. r_unidade r = unidade) (registros db)))))"

definition obter_registros_por_unidade :: "plataforma \<Rightarrow> banco \<Rightarrow> string \<Rightarrow> registro list" where
  "obter_registros_por_unidade env db unidade =
     (case obter_registros_por_unidade_corpo env db unidade of Inl e \<Rightarrow> [] | Inr regs \<Rightarrow> regs)"

subsection \<open>contar_registros_por_unidade\<close>

text \<open>
  SELECT unidade, COUNT(*) FROM registros GROUP BY unidade ORDER BY unidade:
  one row of two columns for each unit present.
\<close>

definition agrupar_por_unidade :: "registros_row list \<Rightarrow> sqlval list list" where
  "agrupar_por_unidade rows =
     map (\<lambda>u. [SText u, SInt (int (length (filter (\<lambda>r. r_unidade r = u) rows)))])
         (sort (remdups (map r_unidade rows)))"

text \<open>
  The loop \<open>contagem[row[2]] = row[1]\<close>: the right-hand side is evaluated first, then
  the subscript.
\<close>

fun preencher_contagem ::
  "(sqlval \<rightharpoonup> sqlval) \<Rightarrow> sqlval list list \<Rightarrow> excecao + (sqlval \<rightharpoonup> sqlval)" where
  "preencher_contagem contagem [] = Inr contagem"
| "preencher_contagem contagem (row # rows) =
     exc_bind (tuple_get row 1) (\<lambda>v.
     exc_bind (tuple_get row 2) (\<lambda>k.
       preencher_contagem (contagem(k \<mapsto> v)) rows))"

definition contar_registros_por_unidade_corpo ::
  "plataforma \<Rightarrow> banco \<Rightarrow> excecao + (sqlval \<rightharpoonup> sqlval)" where
  "contar_registros_por_unidade_corpo env db =
     exc_bind (get_connection env) (\<lambda>_.
     exc_bind (executar_consulta env) (\<lambda>_.
       preencher_contagem Map.empty (agrupar_por_unidade (registros db))))"

definition contar_registros_por_unidade :: "plataforma \<Rightarrow> banco \<Rightarrow> (sqlval \<rightharpoonup> sqlval)" where
  "contar_registros_por_unidade env db =
     (case contar_registros_por_unidade_corpo env db of
        Inl e \<Rightarrow> Map.empty
      | Inr contagem \<Rightarrow> contagem)"

subsection \<open>criar_usuario\<close>

text \<open>
  The INSERT into \<open>usuarios\<close>: the UNIQUE constraint on username raises an
  IntegrityError; \<open>ativo\<close> takes its default 1 and \<open>data_criacao\<close> the current time.
\<close>

definition inserir_usuario ::
  "plataforma \<Rightarrow> banco \<Rightarrow> string \<Rightarrow> string \<Rightarrow> string \<Rightarrow> string \<Rightarrow> string \<Rightarrow> excecao + banco" where
  "inserir_usuario env db username password_hash nome_completo unidade tipo_usuario =
     exc_bind (executar_escrita env) (\<lambda>_.
       if username \<in> set (map u_username (usuarios db)) then Inl IntegrityError
       else
         let novo = proximo_id (seq_usuarios db) (map u_id (usuarios db)) in
         Inr (db\<lparr>usuarios := usuarios db @
                   [\<lparr>u_id = novo, u_username = username, u_password_hash = password_hash,
                     u_nome_completo = nome_completo, u_unidade = unidade,
                     u_tipo_usuario = tipo_usuario, u_ativo = 1,
                     u_data_criacao = agora env, u_ultimo_login = None\<rparr>],
                 seq_usuarios := novo\<rparr>))"

definition criar_usuario_corpo ::
  "plataforma \<Rightarrow> banco \<Rightarrow> string \<Rightarrow> string \<Rightarrow> string \<Rightarrow> string \<Rightarrow> string \<Rightarrow> excecao + (bool \<times> banco)" where
  "criar_usuario_corpo env db username password nome_completo unidade tipo_usuario =
     exc_bind (get_connection env) (\<lambda>_.
     exc_bind (executar_consulta env) (\<lambda>_.
       if length (filter (\<lambda>u. u_username u = username) (usuarios db)) > 0 then Inr (False, db)
       else
         let password_hash = generate_password_hash env password in
         exc_bind (inserir_usuario env db username password_hash nome_completo unidade tipo_usuario)
           (\<lambda>db'. Inr (True, db'))))"

definition criar_usuario ::
  "plataforma \<Rightarrow> banco \<Rightarrow> string \<Rightarrow> string \<Rightarrow> string \<Rightarrow> string \<Rightarrow> string \<Rightarrow> bool \<times> banco" where
  "criar_usuario env db username password nome_completo unidade tipo_usuario =
     (case criar_usuario_corpo env db username password nome_completo unidade tipo_usuario of
        Inl e \<Rightarrow> (False, db)
      | Inr res \<Rightarrow> res)"

subsection \<open>validar_login\<close>

text \<open>The dict returned for a valid login.\<close>

record user_data =
  ud_id :: int
  ud_username :: string
  ud_nome_completo :: string
  ud_unidade :: string
  ud_tipo_usuario :: string

text \<open>UPDATE usuarios SET ultimo_login = CURRENT_TIMESTAMP WHERE id = ?\<close>

definition atualizar_ultimo_login :: "plataforma \<Rightarrow> banco \<Rightarrow> int \<Rightarrow> excecao + banco" where
  "atualizar_ultimo_login env db uid =
     exc_bind (executar_escrita env) (\<lambda>_.
       Inr (db\<lparr>usuarios :=
                 map (\<lambda>u. if u_id u = uid then u\<lparr>u_ultimo_login := Some (agora env)\<rparr> else u)
                     (usuarios db)\<rparr>))"

definition validar_login_corpo ::
  "plataforma \<Rightarrow> banco \<Rightarrow> string \<Rightarrow> string \<Rightarrow> excecao + (user_data option \<times> banco)" where
  "validar_login_corpo env db username password =
     exc_bind (get_connection env) (\<lambda>_.
     exc_bind (executar_consulta env) (\<lambda>_.
       case find (\<lambda>u. u_username u = username \<and> u_ativo u = 1) (usuarios db) of
         None \<Rightarrow> Inr (None, db)
       | Some user \<Rightarrow>
           if check_password_hash env (u_password_hash user) password then
             exc_bind (atualizar_ultimo_login env db (u_id user)) (\<lambda>db'.
               Inr (Some \<lparr>ud_id = u_id user, ud_username = u_username user,
                          ud_nome_completo = u_nome_completo user,
                          ud_unidade = u_unidade user,
                          ud_tipo_usuario = u_tipo_usuario user\<rparr>, db'))
           else Inr (None, db)))"

definition validar_login ::
  "plataforma \<Rightarrow> banco \<Rightarrow> string \<Rightarrow> string \<Rightarrow> user_data option \<times> banco" where
  "validar_login env db username password =
     (case validar_login_corpo env db username password of
        Inl e \<Rightarrow> (None, db)
      | Inr res \<Rightarrow> res)"

section \<open>app.py: the request handlers\<close>

text \<open>
  The logged-in user (class \<open>User\<close>). Its \<open>id\<close> is kept as the integer that
  \<open>int(current_user.id)\<close> reads back from \<open>str(user_data['id'])\<close>.
\<close>

record User =
  usr_id :: int
  usr_username :: string
  usr_nome_completo :: string
  usr_unidade :: string
  usr_tipo_usuario :: string

definition User_init :: "user_data \<Rightarrow> User" where
  "User_init d =
     \<lparr>usr_id = ud_id d, usr_username = ud_username d, usr_nome_completo = ud_nome_completo d,
      usr_unidade = ud_unidade d, usr_tipo_usuario = ud_tipo_usuario d\<rparr>"

definition is_admin :: "User \<Rightarrow> bool" where
  "is_admin u = (usr_tipo_usuario u = ''admin'')"

text \<open>\<open>request.form.get(key, default)\<close> and \<open>request.args.get(key, default)\<close>.\<close>

definition form_get :: "(string \<rightharpoonup> string) \<Rightarrow> string \<Rightarrow> string \<Rightarrow> string" where
  "form_get form key padrao = (case form key of None \<Rightarrow> padrao | Some v \<Rightarrow> v)"

text \<open>The flashed messages, one constructor for each text the handlers flash.\<close>

datatype mensagem =
    CarteirinhaObrigatoria
  | UnidadeObrigatoria
  | SoPodeCriarParaUnidade string
  | MaximoSenhas
  | MinimoSenhas
  | RegistroSalvo string string nat
  | ErroSalvar
  | AcessoNegado
  | CamposObrigatorios
  | SenhaCurta
  | UsuarioCriado string
  | ErroCriarUsuario
  | FormularioCriarUsuario

subsection \<open>adicionar_registro\<close>

text \<open>The comma-separated field becomes the list of passwords.\<close>

definition processar_senhas :: "string \<Rightarrow> string list" where
  "processar_senhas senhas_raw =
     (if senhas_raw \<noteq> [] then
        map py_strip (filter (\<lambda>senha. py_strip senha \<noteq> []) (py_split CHR '','' senhas_raw))
      else [])"

text \<open>
  The handler returns the flashed message and the store; every path redirects to the
  index page. No statement of its \<open>try\<close> block raises: \<open>inserir_registro\<close> catches
  its own exceptions.
\<close>

definition adicionar_registro ::
  "plataforma \<Rightarrow> banco \<Rightarrow> User \<Rightarrow> (string \<rightharpoonup> string) \<Rightarrow> mensagem \<times> banco" where
  "adicionar_registro env db current_user form =
     (let carteirinha = py_strip (form_get form ''carteirinha'' []);
          unidade = py_strip (form_get form ''unidade'' []);
          senhas_raw = form_get form ''senhas'' []
      in
      if carteirinha = [] then (CarteirinhaObrigatoria, db)
      else if unidade = [] then (UnidadeObrigatoria, db)
      else if \<not> is_admin current_user \<and> usr_unidade current_user \<noteq> unidade
              \<and> usr_unidade current_user \<noteq> ''Ambas''
        then (SoPodeCriarParaUnidade (usr_unidade current_user), db)
      else
        let senhas = processar_senhas senhas_raw in
        if length senhas > 5 then (MaximoSenhas, db)
        else if length senhas = 0 then (MinimoSenhas, db)
        else
          (case inserir_registro env db carteirinha unidade senhas (usr_id current_user) of
             (success, db') \<Rightarrow>
               if success then (RegistroSalvo carteirinha unidade (length senhas), db')
               else (ErroSalvar, db')))"

subsection \<open>visualizar_registros\<close>

text \<open>
  The template receives the records, the statistics and the effective filter. The
  database calls catch their own exceptions, so the handler's \<open>except\<close> branch is
  left to a failing template only, which is outside the model.
\<close>

datatype resposta_registros =
    PaginaRegistros "registro list" "sqlval \<rightharpoonup> sqlval" string
  | ErroCarregarRegistros

definition visualizar_registros ::
  "plataforma \<Rightarrow> banco \<Rightarrow> User \<Rightarrow> (string \<rightharpoonup> string) \<Rightarrow> resposta_registros" where
  "visualizar_registros env db current_user args =
     (let unidade_filtro0 = form_get args ''unidade'' [];
          unidade_filtro =
            (if \<not> is_admin current_user \<and> usr_unidade current_user \<noteq> ''Ambas''
             then usr_unidade current_user else unidade_filtro0);
          regs =
            (if unidade_filtro \<noteq> [] \<and> unidade_filtro \<in> set [''Belo Horizonte'', ''Contagem'']
             then obter_registros_por_unidade env db unidade_filtro
             else obter_todos_registros env db);
          estatisticas = contar_registros_por_unidade env db
      in PaginaRegistros regs estatisticas unidade_filtro)"

subsection \<open>criar_usuario (route /admin/criar-usuario)\<close>

datatype metodo = GET | POST

definition app_criar_usuario ::
  "plataforma \<Rightarrow> banco \<Rightarrow> User \<Rightarrow> metodo \<Rightarrow> (string \<rightharpoonup> string) \<Rightarrow> mensagem \<times> banco" where
  "app_criar_usuario env db current_user met form =
     (if \<not> is_admin current_user then (AcessoNegado, db)
      else if met = POST then
        let username = py_strip (form_get form ''username'' []);
            password = py_strip (form_get form ''password'' []);
            nome_completo = py_strip (form_get form ''nome_completo'' []);
            unidade = py_strip (form_get form ''unidade'' []);
            tipo_usuario = form_get form ''tipo_usuario'' ''operador''
        in
        if username = [] \<or> password = [] \<or> nome_completo = [] \<or> unidade = []
          then (CamposObrigatorios, db)
        else if length password < 4 then (SenhaCurta, db)
        else
          (case criar_usuario env db username password nome_completo unidade tipo_usuario of
             (success, db') \<Rightarrow>
               if success then (UsuarioCriado username, db')
               else (ErroCriarUsuario, db'))
      else (FormularioCriarUsuario, db))"

subsection \<open>exportar_dados\<close>

datatype celula = CInt int | CText string | CData nat

definition cabecalho_csv :: "celula list" where
  "cabecalho_csv =
     [CText ''ID'', CText ''Carteirinha'', CText ''Unidade'', CText ''Senhas'',
      CText (''Data/Hora Cria'' @ [CHR 0xE7, CHR 0xE3] @ ''o''),
      CText (''Usu'' @ [CHR 0xE1] @ ''rio ID'')]"

text \<open>The loop writing one row for each record; a join that raises ends the loop.\<close>

fun linhas_csv :: "registro list \<Rightarrow> excecao + celula list list" where
  "linhas_csv [] = Inr []"
| "linhas_csv (reg # regs) =
     exc_bind (py_join_val ''; '' (reg_senhas reg)) (\<lambda>senhas_str.
     exc_bind (linhas_csv regs) (\<lambda>resto.
       Inr ([CInt (reg_id reg), CText (reg_carteirinha reg), CText (reg_unidade reg),
             CText senhas_str, CData (reg_data_criacao reg), CInt (reg_usuario_id reg)]
            # resto)))"

datatype resposta_exportar = RespostaCsv "celula list list" | ErroExportar

definition exportar_dados :: "plataforma \<Rightarrow> banco \<Rightarrow> User \<Rightarrow> resposta_exportar" where
  "exportar_dados env db current_user =
     (let regs =
            (if is_admin current_user then obter_todos_registros env db
             else obter_registros_por_unidade env db (usr_unidade current_user))
      in case linhas_csv regs of
           Inl e \<Rightarrow> ErroExportar
         | Inr linhas \<Rightarrow> RespostaCsv (cabecalho_csv # linhas))"

section \<open>Specification-level definitions\<close>

text \<open>
  The spec's wording of the normalisation of the password field: split on the comma,
  trim each entry, drop the empty entries.
\<close>

definition normalizar_senhas_spec :: "string \<Rightarrow> string list" where
  "normalizar_senhas_spec raw =
     filter (\<lambda>s. s \<noteq> []) (map py_strip (py_split CHR '','' raw))"

text \<open>
  The invariant of the data model, in the spec's words: the stored password list has
  between one and five entries, and the unit is one of the two concrete units.
\<close>

definition invariante_registro_spec :: "registros_row \<Rightarrow> bool" where
  "invariante_registro_spec r =
     ((\<exists>senhas. r_senhas r = json_dumps senhas \<and> 1 \<le> length senhas \<and> length senhas \<le> 5)
      \<and> (r_unidade r = ''Belo Horizonte'' \<or> r_unidade r = ''Contagem''))"

text \<open>
  The part of it every create operation keeps: one to five passwords, a unit that is
  not empty.
\<close>

definition registro_bem_formado :: "registros_row \<Rightarrow> bool" where
  "registro_bem_formado r =
     ((\<exists>senhas. r_senhas r = json_dumps senhas \<and> 1 \<le> length senhas \<and> length senhas \<le> 5)
      \<and> r_unidade r \<noteq> [])"

text \<open>
  The records of the rows that decode, in the order of the rows: what a listing of
  these rows holds when no row ends the loop.
\<close>

definition registros_legiveis :: "plataforma \<Rightarrow> registros_row list \<Rightarrow> registro list" where
  "registros_legiveis env rows =
     concat (map (\<lambda>r. case decodificar_linha env r of Inl e \<Rightarrow> [] | Inr reg \<Rightarrow> [reg]) rows)"

section \<open>Example data\<close>

text \<open>
  A platform on which the store is reachable and every statement executes. Its decoder
  knows the encodings of two password lists, the list of two numbers and a number; every
  other text is a JSONDecodeError. Its password hash is the password behind a prefix.
  In \<open>plataforma_sem_escrita\<close> the write statements fail. The decoder of
  \<open>plataforma_recursao\<close> also meets the text of a thousand opening brackets, on
  which it raises a RecursionError.
\<close>

definition plataforma_exemplo :: plataforma where
  "plataforma_exemplo =
     \<lparr>json_loads = (\<lambda>s. case map_of
        [(json_dumps [''111'', ''222'', ''333''], PList [PStr ''111'', PStr ''222'', PStr ''333'']),
         (json_dumps [''abc''], PList [PStr ''abc'']),
         (''[1, 2]'', PList [PInt 1, PInt 2]),
         (''7'', PInt 7)] s of None \<Rightarrow> Inl JSONDecodeError | Some v \<Rightarrow> Inr v),
      generate_password_hash = (\<lambda>p. ''pbkdf2:'' @ p),
      check_password_hash = (\<lambda>h p. h = ''pbkdf2:'' @ p),
      connection_string = ''sqlitecloud://host:8860/caixa_senhas.db'',
      conexao_ok = True, consulta_ok = True, escrita_ok = True, agora = 1000\<rparr>"

definition plataforma_recursao :: plataforma where
  "plataforma_recursao =
     plataforma_exemplo\<lparr>json_loads :=
       (\<lambda>s. if s = replicate 1000 (CHR ''['') then Inl RecursionError
            else json_loads plataforma_exemplo s)\<rparr>"

definition plataforma_sem_escrita :: plataforma where
  "plataforma_sem_escrita = plataforma_exemplo\<lparr>escrita_ok := False\<rparr>"

text \<open>
The users: the admin, operators of Belo Horizonte, of both units and of a unit
  the code does not know.
\<close>

definition administrador :: User where
  "administrador = \<lparr>usr_id = 1, usr_username = ''admin'',
     usr_nome_completo = ''Administrador do Sistema'',
     usr_unidade = ''Ambas'', usr_tipo_usuario = ''admin''\<rparr>"

definition operador_bh :: User where
  "operador_bh = \<lparr>usr_id = 2, usr_username = ''op1'', usr_nome_completo = ''Operador Um'',
     usr_unidade = ''Belo Horizonte'', usr_tipo_usuario = ''operador''\<rparr>"

definition operador_ambas :: User where
  "operador_ambas = \<lparr>usr_id = 4, usr_username = ''op4'', usr_nome_completo = ''Operador Quatro'',
     usr_unidade = ''Ambas'', usr_tipo_usuario = ''operador''\<rparr>"

definition operador_sem_unidade :: User where
  "operador_sem_unidade = \<lparr>usr_id = 3, usr_username = ''op2'', usr_nome_completo = ''Operador Dois'',
     usr_unidade = ''Betim'', usr_tipo_usuario = ''operador''\<rparr>"

text \<open>
The submitted forms.
\<close>

definition formulario_registro :: "string \<Rightarrow> string \<Rightarrow> string \<Rightarrow> (string \<rightharpoonup> string)" where
  "formulario_registro carteirinha unidade senhas =
     [''carteirinha'' \<mapsto> carteirinha, ''unidade'' \<mapsto> unidade, ''senhas'' \<mapsto> senhas]"

definition formulario_usuario ::
  "string \<Rightarrow> string \<Rightarrow> string \<Rightarrow> string \<Rightarrow> (string \<rightharpoonup> string)" where
  "formulario_usuario username password nome_completo unidade =
     [''username'' \<mapsto> username, ''password'' \<mapsto> password,
      ''nome_completo'' \<mapsto> nome_completo, ''unidade'' \<mapsto> unidade]"

text \<open>
  The stores: empty; one record of each unit; three records created in the same second;
  three users, the third deactivated, with two of its rows; three records, the newest
  with a truncated password column; two records, one the list of two numbers and one
  truncated; two records, the newer a thousand opening brackets.
\<close>

definition banco_vazio :: banco where
  "banco_vazio = \<lparr>usuarios = [], registros = [], seq_usuarios = 0, seq_registros = 0\<rparr>"

definition banco_duas_unidades :: banco where
  "banco_duas_unidades =
     \<lparr>usuarios = [],
      registros =
        [\<lparr>r_id = 1, r_carteirinha = ''C100'', r_unidade = ''Belo Horizonte'',
          r_senhas = json_dumps [''111'', ''222'', ''333''], r_usuario_id = 2, r_data_criacao = 10\<rparr>,
         \<lparr>r_id = 2, r_carteirinha = ''C200'', r_unidade = ''Contagem'',
          r_senhas = json_dumps [''abc''], r_usuario_id = 1, r_data_criacao = 20\<rparr>],
      seq_usuarios = 0, seq_registros = 2\<rparr>"

definition banco_mesmo_segundo :: banco where
  "banco_mesmo_segundo =
     \<lparr>usuarios = [],
      registros =
        [\<lparr>r_id = 1, r_carteirinha = ''C100'', r_unidade = ''Belo Horizonte'',
          r_senhas = json_dumps [''abc''], r_usuario_id = 2, r_data_criacao = 10\<rparr>,
         \<lparr>r_id = 2, r_carteirinha = ''C200'', r_unidade = ''Contagem'',
          r_senhas = json_dumps [''abc''], r_usuario_id = 1, r_data_criacao = 10\<rparr>,
         \<lparr>r_id = 3, r_carteirinha = ''C300'', r_unidade = ''Belo Horizonte'',
          r_senhas = json_dumps [''abc''], r_usuario_id = 2, r_data_criacao = 10\<rparr>],
      seq_usuarios = 0, seq_registros = 3\<rparr>"

definition banco_usuarios :: banco where
  "banco_usuarios =
     \<lparr>usuarios =
        [\<lparr>u_id = 1, u_username = ''admin'', u_password_hash = ''pbkdf2:20e10'',
          u_nome_completo = ''Administrador do Sistema'', u_unidade = ''Ambas'',
          u_tipo_usuario = ''admin'', u_ativo = 1, u_data_criacao = 1, u_ultimo_login = None\<rparr>,
         \<lparr>u_id = 2, u_username = ''op1'', u_password_hash = ''pbkdf2:segredo'',
          u_nome_completo = ''Operador Um'', u_unidade = ''Belo Horizonte'',
          u_tipo_usuario = ''operador'', u_ativo = 1, u_data_criacao = 2, u_ultimo_login = None\<rparr>,
         \<lparr>u_id = 3, u_username = ''op3'', u_password_hash = ''pbkdf2:senha3'',
          u_nome_completo = ''Operador Tres'', u_unidade = ''Contagem'',
          u_tipo_usuario = ''operador'', u_ativo = 0, u_data_criacao = 3, u_ultimo_login = None\<rparr>],
      registros = [], seq_usuarios = 3, seq_registros = 0\<rparr>"

definition linha_op1 :: usuarios_row where
  "linha_op1 =
     \<lparr>u_id = 2, u_username = ''op1'', u_password_hash = ''pbkdf2:segredo'',
      u_nome_completo = ''Operador Um'', u_unidade = ''Belo Horizonte'',
      u_tipo_usuario = ''operador'', u_ativo = 1, u_data_criacao = 2, u_ultimo_login = None\<rparr>"

definition linha_op3 :: usuarios_row where
  "linha_op3 =
     \<lparr>u_id = 3, u_username = ''op3'', u_password_hash = ''pbkdf2:senha3'',
      u_nome_completo = ''Operador Tres'', u_unidade = ''Contagem'',
      u_tipo_usuario = ''operador'', u_ativo = 0, u_data_criacao = 3, u_ultimo_login = None\<rparr>"

definition banco_corrompido :: banco where
  "banco_corrompido =
     \<lparr>usuarios = [],
      registros =
        [\<lparr>r_id = 1, r_carteirinha = ''C100'', r_unidade = ''Belo Horizonte'',
          r_senhas = json_dumps [''111'', ''222'', ''333''], r_usuario_id = 2, r_data_criacao = 10\<rparr>,
         \<lparr>r_id = 2, r_carteirinha = ''C200'', r_unidade = ''Contagem'',
          r_senhas = json_dumps [''abc''], r_usuario_id = 1, r_data_criacao = 20\<rparr>,
         \<lparr>r_id = 3, r_carteirinha = ''C300'', r_unidade = ''Belo Horizonte'',
          r_senhas = ''[111, '', r_usuario_id = 2, r_data_criacao = 30\<rparr>],
      seq_usuarios = 0, seq_registros = 3\<rparr>"

definition banco_lista_numeros :: banco where
  "banco_lista_numeros =
     \<lparr>usuarios = [],
      registros =
        [\<lparr>r_id = 1, r_carteirinha = ''C100'', r_unidade = ''Belo Horizonte'',
          r_senhas = ''[1, 2]'', r_usuario_id = 2, r_data_criacao = 10\<rparr>,
         \<lparr>r_id = 2, r_carteirinha = ''C200'', r_unidade = ''Contagem'',
          r_senhas = ''[111, '', r_usuario_id = 1, r_data_criacao = 20\<rparr>],
      seq_usuarios = 0, seq_registros = 2\<rparr>"

definition banco_recursao :: banco where
  "banco_recursao =
     \<lparr>usuarios = [],
      registros =
        [\<lparr>r_id = 1, r_carteirinha = ''C100'', r_unidade = ''Belo Horizonte'',
          r_senhas = json_dumps [''abc''], r_usuario_id = 2, r_data_criacao = 10\<rparr>,
         \<lparr>r_id = 2, r_carteirinha = ''C200'', r_unidade = ''Contagem'',
          r_senhas = replicate 1000 (CHR ''[''), r_usuario_id = 1, r_data_criacao = 20\<rparr>],
      seq_usuarios = 0, seq_registros = 2\<rparr>"

section \<open>Properties\<close>

subsection \<open>Splitting and trimming the password field\<close>

lemma py_split_no_sep: "sep \<notin> set x \<Longrightarrow> py_split sep x = [x]"
  by (induction x) auto

lemma py_split_append_sep:
  "sep \<notin> set x \<Longrightarrow> py_split sep (x @ sep # rest) = x # py_split sep rest"
  by (induction x) auto

lemma py_split_join:
  "\<forall>x\<in>set xs. sep \<notin> set x \<Longrightarrow> xs \<noteq> [] \<Longrightarrow> py_split sep (py_join [sep] xs) = xs"
proof (induction "[sep]" xs rule: py_join.induct)
  case 1 then show ?case by simp
next
  case (2 x) then show ?case by (simp add: py_split_no_sep)
next
  case (3 x y ys)
  then show ?case by (simp add: py_split_append_sep)
qed

lemma filter_map_strip:
  "map py_strip (filter (\<lambda>s. py_strip s \<noteq> []) xs) = filter (\<lambda>s. s \<noteq> []) (map py_strip xs)"
  by (induction xs) auto

lemma py_strip_Nil: "py_strip [] = []"
  by (simp add: py_strip_def)

lemma processar_senhas_spec: "processar_senhas raw = normalizar_senhas_spec raw"
  by (cases raw)
     (simp_all add: processar_senhas_def normalizar_senhas_spec_def filter_map_strip py_strip_Nil)

lemma processar_senhas_join:
  assumes "\<forall>x\<in>set xs. CHR '','' \<notin> set x"
  shows "processar_senhas (py_join '','' xs) = filter (\<lambda>s. s \<noteq> []) (map py_strip xs)"
proof (cases "xs = []")
  case True then show ?thesis by (simp add: processar_senhas_def)
next
  case False
  with assms have "py_split CHR '','' (py_join '','' xs) = xs" by (rule py_split_join)
  then show ?thesis by (simp add: processar_senhas_spec normalizar_senhas_spec_def)
qed

subsection \<open>Creating a record\<close>

lemma inserir_registro_sucesso:
  assumes "carteirinha \<noteq> []" "unidade \<noteq> []" "senhas \<noteq> []" "usuario_id \<noteq> 0"
    and "length senhas \<le> 5"
    and "connection_string env \<noteq> []" "conexao_ok env" "escrita_ok env"
  shows "inserir_registro env db carteirinha unidade senhas usuario_id =
           (True, db\<lparr>registros := registros db @
                     [\<lparr>r_id = proximo_id (seq_registros db) (map r_id (registros db)),
                       r_carteirinha = carteirinha, r_unidade = unidade,
                       r_senhas = json_dumps senhas, r_usuario_id = usuario_id,
                       r_data_criacao = agora env\<rparr>],
                  seq_registros := proximo_id (seq_registros db) (map r_id (registros db))\<rparr>)"
  using assms
  by (simp add: inserir_registro_def inserir_registro_corpo_def exc_bind_def get_connection_def
      executar_escrita_def Let_def)

lemma inserir_registro_casos:
  "inserir_registro env db carteirinha unidade senhas usuario_id =
     (if carteirinha = [] \<or> unidade = [] \<or> senhas = [] \<or> usuario_id = 0 \<or> length senhas > 5
         \<or> connection_string env = [] \<or> \<not> conexao_ok env \<or> \<not> escrita_ok env
      then (False, db)
      else (True,
            db\<lparr>registros := registros db @
                  [\<lparr>r_id = proximo_id (seq_registros db) (map r_id (registros db)),
                    r_carteirinha = carteirinha, r_unidade = unidade,
                    r_senhas = json_dumps senhas, r_usuario_id = usuario_id,
                    r_data_criacao = agora env\<rparr>],
               seq_registros := proximo_id (seq_registros db) (map r_id (registros db))\<rparr>))"
  by (simp add: inserir_registro_def inserir_registro_corpo_def exc_bind_def Let_def
      get_connection_def executar_escrita_def)

lemma inserir_registro_efeito:
  "snd (inserir_registro env db carteirinha unidade senhas usuario_id) = db
   \<or> (\<exists>row. registros (snd (inserir_registro env db carteirinha unidade senhas usuario_id)) =
              registros db @ [row]
          \<and> r_unidade row = unidade \<and> unidade \<noteq> []
          \<and> r_senhas row = json_dumps senhas \<and> 1 \<le> length senhas \<and> length senhas \<le> 5)"
proof (cases "carteirinha = [] \<or> unidade = [] \<or> senhas = [] \<or> usuario_id = 0 \<or> length senhas > 5
         \<or> connection_string env = [] \<or> \<not> conexao_ok env \<or> \<not> escrita_ok env")
  case True
  then show ?thesis by (simp add: inserir_registro_casos)
next
  case False
  then have "1 \<le> length senhas" by (cases senhas) simp_all
  with False show ?thesis by (simp add: inserir_registro_casos)
qed

lemma adicionar_registro_efeito:
  "snd (adicionar_registro env db usr form) = db
   \<or> (\<exists>row senhas. registros (snd (adicionar_registro env db usr form)) = registros db @ [row]
          \<and> r_unidade row = py_strip (form_get form ''unidade'' [])
          \<and> r_unidade row \<noteq> []
          \<and> (is_admin usr \<or> usr_unidade usr = r_unidade row \<or> usr_unidade usr = ''Ambas'')
          \<and> r_senhas row = json_dumps senhas \<and> 1 \<le> length senhas \<and> length senhas \<le> 5)"
proof -
  let ?c = "py_strip (form_get form ''carteirinha'' [])"
  let ?u = "py_strip (form_get form ''unidade'' [])"
  let ?s = "processar_senhas (form_get form ''senhas'' [])"
  show ?thesis
  proof (cases "?c \<noteq> [] \<and> ?u \<noteq> []
      \<and> (is_admin usr \<or> usr_unidade usr = ?u \<or> usr_unidade usr = ''Ambas'')
      \<and> \<not> length ?s > 5 \<and> length ?s \<noteq> 0")
    case False
    then have "snd (adicionar_registro env db usr form) = db"
      by (auto simp add: adicionar_registro_def Let_def)
    then show ?thesis by simp
  next
    case True
    then have eq: "snd (adicionar_registro env db usr form) =
        snd (inserir_registro env db ?c ?u ?s (usr_id usr))"
      by (auto simp add: adicionar_registro_def Let_def split: prod.splits)
    show ?thesis
    proof (cases "snd (inserir_registro env db ?c ?u ?s (usr_id usr)) = db")
      case True
      with eq show ?thesis by simp
    next
      case False
      with inserir_registro_efeito [of env db ?c ?u ?s "usr_id usr"]
      obtain row where row: "registros (snd (inserir_registro env db ?c ?u ?s (usr_id usr))) =
              registros db @ [row]" "r_unidade row = ?u" "?u \<noteq> []"
          "r_senhas row = json_dumps ?s" "1 \<le> length ?s" "length ?s \<le> 5"
        by blast
      from \<open>?c \<noteq> [] \<and> ?u \<noteq> []
        \<and> (is_admin usr \<or> usr_unidade usr = ?u \<or> usr_unidade usr = ''Ambas'')
        \<and> \<not> length ?s > 5 \<and> length ?s \<noteq> 0\<close>
      have p: "is_admin usr \<or> usr_unidade usr = r_unidade row \<or> usr_unidade usr = ''Ambas''"
        using row(2) by simp
      have "\<exists>row senhas. registros (snd (adicionar_registro env db usr form)) = registros db @ [row]
          \<and> r_unidade row = py_strip (form_get form ''unidade'' [])
          \<and> r_unidade row \<noteq> []
          \<and> (is_admin usr \<or> usr_unidade usr = r_unidade row \<or> usr_unidade usr = ''Ambas'')
          \<and> r_senhas row = json_dumps senhas \<and> 1 \<le> length senhas \<and> length senhas \<le> 5"
        apply (rule exI [of _ row])
        apply (rule exI [of _ ?s])
        using row p eq by simp
      then show ?thesis by (rule disjI2)
    qed
  qed
qed

lemma adicionar_registro_senhas:
  assumes "py_strip (form_get form ''carteirinha'' []) \<noteq> []"
    and "py_strip (form_get form ''unidade'' []) \<noteq> []"
    and "is_admin usr \<or> usr_unidade usr = py_strip (form_get form ''unidade'' [])
           \<or> usr_unidade usr = ''Ambas''"
  shows "adicionar_registro env db usr form =
     (let senhas = processar_senhas (form_get form ''senhas'' []) in
        if length senhas > 5 then (MaximoSenhas, db)
        else if length senhas = 0 then (MinimoSenhas, db)
        else
          (case inserir_registro env db (py_strip (form_get form ''carteirinha'' []))
                  (py_strip (form_get form ''unidade'' [])) senhas (usr_id usr) of
             (success, db') \<Rightarrow>
               if success then (RegistroSalvo (py_strip (form_get form ''carteirinha'' []))
                   (py_strip (form_get form ''unidade'' [])) (length senhas), db')
               else (ErroSalvar, db')))"
  using assms by (auto simp add: adicionar_registro_def Let_def)

lemma formulario_registro_get:
  "form_get (formulario_registro c u s) ''carteirinha'' [] = c"
  "form_get (formulario_registro c u s) ''unidade'' [] = u"
  "form_get (formulario_registro c u s) ''senhas'' [] = s"
  by (simp_all add: form_get_def formulario_registro_def)

subsection \<open>Listing the records\<close>

lemma plataforma_exemplo_ok:
  "connection_string plataforma_exemplo \<noteq> []" "conexao_ok plataforma_exemplo"
  "consulta_ok plataforma_exemplo" "escrita_ok plataforma_exemplo"
  by (simp_all add: plataforma_exemplo_def)

lemma decodificar_linha_unidade:
  "decodificar_linha env row = Inr reg \<Longrightarrow> reg_unidade reg = r_unidade row"
  by (auto simp add: decodificar_linha_def exc_bind_def split: sum.splits)

lemma decodificar_linhas_legiveis:
  "decodificar_linhas env rows = Inr regs \<Longrightarrow> regs = registros_legiveis env rows"
proof (induction rows arbitrary: regs)
  case Nil
  then show ?case by (simp add: registros_legiveis_def)
next
  case (Cons row rows)
  show ?case
  proof (cases "decodificar_linha env row")
    case (Inl e)
    with Cons.prems have "decodificar_linhas env rows = Inr regs"
      by (simp split: if_splits)
    then have "regs = registros_legiveis env rows" by (rule Cons.IH)
    with Inl show ?thesis by (simp add: registros_legiveis_def)
  next
    case (Inr reg)
    with Cons.prems obtain resto where r: "decodificar_linhas env rows = Inr resto"
        "regs = reg # resto"
      by (auto simp add: exc_bind_def split: sum.splits)
    from r(1) have "resto = registros_legiveis env rows" by (rule Cons.IH)
    with Inr r(2) show ?thesis by (simp add: registros_legiveis_def)
  qed
qed

lemma decodificar_linhas_sem_aborto:
  "\<forall>r\<in>set rows. \<forall>e. decodificar_linha env r = Inl e \<longrightarrow> except_decodificacao e \<Longrightarrow>
   decodificar_linhas env rows = Inr (registros_legiveis env rows)"
proof (induction rows)
  case Nil
  then show ?case by (simp add: registros_legiveis_def)
next
  case (Cons row rows)
  then have ih: "decodificar_linhas env rows = Inr (registros_legiveis env rows)" by simp
  show ?case
  proof (cases "decodificar_linha env row")
    case (Inl e)
    with Cons.prems have "except_decodificacao e" by simp
    with Inl ih show ?thesis by (simp add: registros_legiveis_def)
  next
    case (Inr reg)
    with ih show ?thesis by (simp add: registros_legiveis_def exc_bind_def)
  qed
qed

lemma registros_legiveis_origem:
  "g \<in> set (registros_legiveis env rows) \<Longrightarrow> \<exists>r\<in>set rows. decodificar_linha env r = Inr g"
  by (auto simp add: registros_legiveis_def split: sum.splits)

lemma ordenar_registros_set: "set (ordenar_registros rows) = set rows"
  by (simp add: ordenar_registros_def)

lemma obter_registros_por_unidade_casos:
  "obter_registros_por_unidade env db u = []
   \<or> obter_registros_por_unidade env db u =
       registros_legiveis env
         (ordenar_registros (filter (\<lambda>r. r_unidade r = u) (registros db)))"
proof (cases "obter_registros_por_unidade_corpo env db u")
  case (Inl e)
  then show ?thesis by (simp add: obter_registros_por_unidade_def)
next
  case (Inr regs)
  then have "decodificar_linhas env
      (ordenar_registros (filter (\<lambda>r. r_unidade r = u) (registros db))) = Inr regs"
    by (auto simp add: obter_registros_por_unidade_corpo_def exc_bind_def split: sum.splits)
  then have "regs = registros_legiveis env
      (ordenar_registros (filter (\<lambda>r. r_unidade r = u) (registros db)))"
    by (rule decodificar_linhas_legiveis)
  with Inr show ?thesis by (simp add: obter_registros_por_unidade_def)
qed

lemma obter_registros_por_unidade_origem:
  assumes "g \<in> set (obter_registros_por_unidade env db u)"
  shows "\<exists>r\<in>set (registros db). r_unidade r = u \<and> decodificar_linha env r = Inr g"
proof -
  from assms obter_registros_por_unidade_casos [of env db u]
  have "g \<in> set (registros_legiveis env
      (ordenar_registros (filter (\<lambda>r. r_unidade r = u) (registros db))))"
    by auto
  then obtain r where "r \<in> set (ordenar_registros (filter (\<lambda>r. r_unidade r = u) (registros db)))"
      "decodificar_linha env r = Inr g"
    using registros_legiveis_origem by blast
  then show ?thesis by (auto simp add: ordenar_registros_set)
qed

lemma obter_registros_por_unidade_ok:
  assumes "connection_string env \<noteq> []" "conexao_ok env" "consulta_ok env"
    and "\<forall>r\<in>set (registros db). r_unidade r = u \<longrightarrow>
           (\<forall>e. decodificar_linha env r = Inl e \<longrightarrow> except_decodificacao e)"
  shows "obter_registros_por_unidade env db u =
     registros_legiveis env (ordenar_registros (filter (\<lambda>r. r_unidade r = u) (registros db)))"
proof -
  from assms(4)
  have "\<forall>r\<in>set (ordenar_registros (filter (\<lambda>r. r_unidade r = u) (registros db))).
      \<forall>e. decodificar_linha env r = Inl e \<longrightarrow> except_decodificacao e"
    by (auto simp add: ordenar_registros_set)
  then have "decodificar_linhas env
      (ordenar_registros (filter (\<lambda>r. r_unidade r = u) (registros db))) =
      Inr (registros_legiveis env
        (ordenar_registros (filter (\<lambda>r. r_unidade r = u) (registros db))))"
    by (rule decodificar_linhas_sem_aborto)
  with assms(1-3) show ?thesis
    by (simp add: obter_registros_por_unidade_def obter_registros_por_unidade_corpo_def
        exc_bind_def get_connection_def executar_consulta_def)
qed

lemma obter_bh_exemplo:
  "obter_registros_por_unidade plataforma_exemplo banco_duas_unidades ''Belo Horizonte'' =
     [\<lparr>reg_id = 1, reg_carteirinha = ''C100'', reg_unidade = ''Belo Horizonte'',
         reg_senhas = PList [PStr ''111'', PStr ''222'', PStr ''333''], reg_usuario_id = 2,
         reg_data_criacao = 10, reg_total_senhas = 3\<rparr>]"
  by code_simp

lemma obter_todos_exemplo:
  "obter_todos_registros plataforma_exemplo banco_duas_unidades =
     [\<lparr>reg_id = 2, reg_carteirinha = ''C200'', reg_unidade = ''Contagem'',
         reg_senhas = PList [PStr ''abc''], reg_usuario_id = 1,
         reg_data_criacao = 20, reg_total_senhas = 1\<rparr>,
      \<lparr>reg_id = 1, reg_carteirinha = ''C100'', reg_unidade = ''Belo Horizonte'',
         reg_senhas = PList [PStr ''111'', PStr ''222'', PStr ''333''], reg_usuario_id = 2,
         reg_data_criacao = 10, reg_total_senhas = 3\<rparr>]"
  by code_simp

subsection \<open>Counting by unit\<close>

lemma preencher_contagem_duas_colunas:
  "\<forall>row\<in>set rows. length row = 2 \<Longrightarrow>
   preencher_contagem contagem rows = (if rows = [] then Inr contagem else Inl IndexError)"
  by (cases rows) (simp_all add: tuple_get_def exc_bind_def)

lemma contar_registros_por_unidade_vazio:
  "contar_registros_por_unidade env db = Map.empty"
proof -
  have "\<forall>row\<in>set (agrupar_por_unidade (registros db)). length row = 2"
    by (auto simp add: agrupar_por_unidade_def)
  then have "preencher_contagem Map.empty (agrupar_por_unidade (registros db)) =
      (if agrupar_por_unidade (registros db) = [] then Inr Map.empty else Inl IndexError)"
    by (rule preencher_contagem_duas_colunas)
  then show ?thesis
    by (simp add: contar_registros_por_unidade_def contar_registros_por_unidade_corpo_def
        exc_bind_def split: sum.splits)
qed

subsection \<open>Exporting\<close>

lemma exportar_ambas_exemplo:
  "exportar_dados plataforma_exemplo banco_duas_unidades operador_ambas =
     RespostaCsv [cabecalho_csv]"
  by code_simp

subsection \<open>Users and logins\<close>

lemma criar_usuario_sucesso:
  assumes "connection_string env \<noteq> []" "conexao_ok env" "consulta_ok env" "escrita_ok env"
    and "username \<notin> set (map u_username (usuarios db))"
  shows "criar_usuario env db username password nome_completo unidade tipo_usuario =
     (True,
      db\<lparr>usuarios := usuarios db @
           [\<lparr>u_id = proximo_id (seq_usuarios db) (map u_id (usuarios db)),
             u_username = username, u_password_hash = generate_password_hash env password,
             u_nome_completo = nome_completo, u_unidade = unidade,
             u_tipo_usuario = tipo_usuario, u_ativo = 1,
             u_data_criacao = agora env, u_ultimo_login = None\<rparr>],
         seq_usuarios := proximo_id (seq_usuarios db) (map u_id (usuarios db))\<rparr>)"
proof -
  from assms(5) have "filter (\<lambda>u. u_username u = username) (usuarios db) = []"
    by (auto simp add: filter_empty_conv)
  with assms show ?thesis
    by (simp add: criar_usuario_def criar_usuario_corpo_def inserir_usuario_def exc_bind_def
        get_connection_def executar_consulta_def executar_escrita_def Let_def)
qed

lemma validar_login_credenciais:
  assumes "connection_string env \<noteq> []" "conexao_ok env" "consulta_ok env"
    and "find (\<lambda>u. u_username u = username \<and> u_ativo u = 1) (usuarios db) = Some user"
    and "check_password_hash env (u_password_hash user) password"
  shows "validar_login env db username password =
     (if escrita_ok env then
        (Some \<lparr>ud_id = u_id user, ud_username = u_username user,
               ud_nome_completo = u_nome_completo user, ud_unidade = u_unidade user,
               ud_tipo_usuario = u_tipo_usuario user\<rparr>,
         db\<lparr>usuarios :=
              map (\<lambda>u. if u_id u = u_id user then u\<lparr>u_ultimo_login := Some (agora env)\<rparr> else u)
                  (usuarios db)\<rparr>)
      else (None, db))"
  using assms
  by (simp add: validar_login_def validar_login_corpo_def atualizar_ultimo_login_def
      exc_bind_def get_connection_def executar_consulta_def executar_escrita_def)

lemma validar_login_sem_linha:
  assumes "find (\<lambda>u. u_username u = username \<and> u_ativo u = 1) (usuarios db) = None"
  shows "validar_login env db username password = (None, db)"
  using assms
  by (simp add: validar_login_def validar_login_corpo_def exc_bind_def split: sum.splits)

section \<open>The claims\<close>

subsection \<open>C1: a concrete-unit operator sees the own unit only\<close>

lemma duas_unidades_bh_sem_aborto:
  "list_all (\<lambda>r. r_unidade r = ''Belo Horizonte'' \<longrightarrow> \<not> isl (decodificar_linha plataforma_exemplo r))
     (registros banco_duas_unidades)"
  by code_simp

lemma duas_unidades_bh_legiveis:
  "registros_legiveis plataforma_exemplo
     (ordenar_registros (filter (\<lambda>r. r_unidade r = ''Belo Horizonte'')
        (registros banco_duas_unidades))) =
   [\<lparr>reg_id = 1, reg_carteirinha = ''C100'', reg_unidade = ''Belo Horizonte'',
     reg_senhas = PList [PStr ''111'', PStr ''222'', PStr ''333''], reg_usuario_id = 2,
     reg_data_criacao = 10, reg_total_senhas = 3\<rparr>]"
  by code_simp

lemma mesmo_segundo_bh_exemplo:
  "map reg_id (obter_registros_por_unidade plataforma_exemplo banco_mesmo_segundo
     ''Belo Horizonte'') = [1, 3]"
  by code_simp

text \<open>
  Claim C1. For a non-admin user whose unit is Belo Horizonte or Contagem, the records
  view answers every request, whatever unit it asks for, with the page (never the error
  redirect), the effective filter being the user's own unit, and the records shown are
  those of \<open>obter_registros_por_unidade\<close> for that unit. Every record shown has
  the user's unit and is the decoding of a stored row of that unit. The listing is
  empty or holds the decoding of every row of the unit that decodes, newest first; it
  is the latter when the store answers the query and no row of the unit raises an
  exception that the loop does not catch.
\<close>

theorem C1_filtro_forcado:
  assumes "\<not> is_admin usr"
    and "usr_unidade usr = ''Belo Horizonte'' \<or> usr_unidade usr = ''Contagem''"
  shows "visualizar_registros env db usr args =
           PaginaRegistros (obter_registros_por_unidade env db (usr_unidade usr))
             (contar_registros_por_unidade env db) (usr_unidade usr)
    \<and> (\<forall>g\<in>set (obter_registros_por_unidade env db (usr_unidade usr)).
          reg_unidade g = usr_unidade usr)
    \<and> (\<forall>g\<in>set (obter_registros_por_unidade env db (usr_unidade usr)).
          \<exists>r\<in>set (registros db). r_unidade r = usr_unidade usr \<and> decodificar_linha env r = Inr g)
    \<and> (obter_registros_por_unidade env db (usr_unidade usr) = []
        \<or> obter_registros_por_unidade env db (usr_unidade usr) =
            registros_legiveis env
              (ordenar_registros (filter (\<lambda>r. r_unidade r = usr_unidade usr) (registros db))))
    \<and> (connection_string env \<noteq> [] \<and> conexao_ok env \<and> consulta_ok env
        \<and> (\<forall>r\<in>set (registros db). r_unidade r = usr_unidade usr \<longrightarrow>
              (\<forall>e. decodificar_linha env r = Inl e \<longrightarrow> except_decodificacao e))
        \<longrightarrow>
          obter_registros_por_unidade env db (usr_unidade usr) =
            registros_legiveis env
              (ordenar_registros (filter (\<lambda>r. r_unidade r = usr_unidade usr) (registros db))))"
proof -
  let ?u = "usr_unidade usr"
  have v: "visualizar_registros env db usr args =
           PaginaRegistros (obter_registros_por_unidade env db ?u)
             (contar_registros_por_unidade env db) ?u"
    using assms by (auto simp add: visualizar_registros_def Let_def)
  have o: "\<forall>g\<in>set (obter_registros_por_unidade env db ?u).
          \<exists>r\<in>set (registros db). r_unidade r = ?u \<and> decodificar_linha env r = Inr g"
    using obter_registros_por_unidade_origem by blast
  have u: "\<forall>g\<in>set (obter_registros_por_unidade env db ?u). reg_unidade g = ?u"
  proof
    fix g assume "g \<in> set (obter_registros_por_unidade env db ?u)"
    with o obtain r where "r_unidade r = ?u" "decodificar_linha env r = Inr g" by blast
    then show "reg_unidade g = ?u" by (simp add: decodificar_linha_unidade)
  qed
  note c = obter_registros_por_unidade_casos [of env db ?u]
  have k: "obter_registros_por_unidade env db ?u =
            registros_legiveis env
              (ordenar_registros (filter (\<lambda>r. r_unidade r = ?u) (registros db)))"
    if "connection_string env \<noteq> [] \<and> conexao_ok env \<and> consulta_ok env
        \<and> (\<forall>r\<in>set (registros db). r_unidade r = ?u \<longrightarrow>
              (\<forall>e. decodificar_linha env r = Inl e \<longrightarrow> except_decodificacao e))"
    using that by (intro obter_registros_por_unidade_ok) simp_all
  from v u o c k show ?thesis by blast
qed

text \<open>
  An operator of Belo Horizonte asking for Contagem, on a store holding one record of
  each unit, and on a store holding three records of the same second, two of them of
  Belo Horizonte.
\<close>

theorem C1_filtro_forcado_witness:
  "visualizar_registros plataforma_exemplo banco_duas_unidades operador_bh
       [''unidade'' \<mapsto> ''Contagem''] =
     PaginaRegistros
       [\<lparr>reg_id = 1, reg_carteirinha = ''C100'', reg_unidade = ''Belo Horizonte'',
         reg_senhas = PList [PStr ''111'', PStr ''222'', PStr ''333''], reg_usuario_id = 2,
         reg_data_criacao = 10, reg_total_senhas = 3\<rparr>]
       Map.empty ''Belo Horizonte''
   \<and> visualizar_registros plataforma_exemplo banco_mesmo_segundo operador_bh
       [''unidade'' \<mapsto> ''Contagem''] =
     PaginaRegistros
       (obter_registros_por_unidade plataforma_exemplo banco_mesmo_segundo ''Belo Horizonte'')
       Map.empty ''Belo Horizonte''
   \<and> map reg_id (obter_registros_por_unidade plataforma_exemplo banco_mesmo_segundo
        ''Belo Horizonte'') = [1, 3]"
proof -
  have a: "\<not> is_admin operador_bh" by (simp add: is_admin_def operador_bh_def)
  have b: "usr_unidade operador_bh = ''Belo Horizonte'' \<or> usr_unidade operador_bh = ''Contagem''"
    by (simp add: operador_bh_def)
  have u: "usr_unidade operador_bh = ''Belo Horizonte''" by (simp add: operador_bh_def)
  have n: "\<forall>r\<in>set (registros banco_duas_unidades). r_unidade r = ''Belo Horizonte'' \<longrightarrow>
      (\<forall>e. decodificar_linha plataforma_exemplo r = Inl e \<longrightarrow> except_decodificacao e)"
    using duas_unidades_bh_sem_aborto by (auto simp add: list_all_iff)
  from C1_filtro_forcado [OF a b, of plataforma_exemplo banco_duas_unidades
      "[''unidade'' \<mapsto> ''Contagem'']"] n
  have 1: "visualizar_registros plataforma_exemplo banco_duas_unidades operador_bh
       [''unidade'' \<mapsto> ''Contagem''] =
     PaginaRegistros
       [\<lparr>reg_id = 1, reg_carteirinha = ''C100'', reg_unidade = ''Belo Horizonte'',
         reg_senhas = PList [PStr ''111'', PStr ''222'', PStr ''333''], reg_usuario_id = 2,
         reg_data_criacao = 10, reg_total_senhas = 3\<rparr>]
       Map.empty ''Belo Horizonte''"
    by (simp add: u plataforma_exemplo_ok duas_unidades_bh_legiveis
        contar_registros_por_unidade_vazio)
  from C1_filtro_forcado [OF a b, of plataforma_exemplo banco_mesmo_segundo
      "[''unidade'' \<mapsto> ''Contagem'']"]
  have 2: "visualizar_registros plataforma_exemplo banco_mesmo_segundo operador_bh
       [''unidade'' \<mapsto> ''Contagem''] =
     PaginaRegistros
       (obter_registros_por_unidade plataforma_exemplo banco_mesmo_segundo ''Belo Horizonte'')
       Map.empty ''Belo Horizonte''"
    by (simp add: u contar_registros_por_unidade_vazio)
  from 1 2 mesmo_segundo_bh_exemplo show ?thesis by blast
qed

subsection \<open>C2: the password field becomes a list of one to five entries\<close>

text \<open>
  Claim C2. The submitted password string is split on the comma, each entry trimmed and
  the empty entries dropped (\<open>normalizar_senhas_spec\<close> is that wording); for entries
  that hold no comma the result is the trimmed non-empty entries in the order given,
  duplicates kept. For a request that passes the checks on card and unit, a result of
  no entry is rejected with \<open>MinimoSenhas\<close>, one of more than five with
  \<open>MaximoSenhas\<close>, both leaving the store as it was; a result of one to five entries
  passes both checks and, when the store accepts the write, is saved as given. The
  input \<open>a, ,b\<close> gives the two entries \<open>a\<close> and \<open>b\<close>.
\<close>

theorem C2_senhas:
  assumes carteirinha: "py_strip (form_get form ''carteirinha'' []) \<noteq> []"
    and unidade: "py_strip (form_get form ''unidade'' []) \<noteq> []"
    and permitido: "is_admin usr \<or> usr_unidade usr = py_strip (form_get form ''unidade'' [])
           \<or> usr_unidade usr = ''Ambas''"
  shows "processar_senhas raw = normalizar_senhas_spec raw
    \<and> ((\<forall>x\<in>set xs. CHR '','' \<notin> set x) \<longrightarrow>
         processar_senhas (py_join '','' xs) = filter (\<lambda>s. s \<noteq> []) (map py_strip xs))
    \<and> (length (processar_senhas (form_get form ''senhas'' [])) = 0 \<longrightarrow>
         adicionar_registro env db usr form = (MinimoSenhas, db))
    \<and> (length (processar_senhas (form_get form ''senhas'' [])) > 5 \<longrightarrow>
         adicionar_registro env db usr form = (MaximoSenhas, db))
    \<and> (1 \<le> length (processar_senhas (form_get form ''senhas'' []))
        \<and> length (processar_senhas (form_get form ''senhas'' [])) \<le> 5 \<longrightarrow>
         fst (adicionar_registro env db usr form) \<noteq> MinimoSenhas
         \<and> fst (adicionar_registro env db usr form) \<noteq> MaximoSenhas
         \<and> (connection_string env \<noteq> [] \<and> conexao_ok env \<and> escrita_ok env \<and> usr_id usr \<noteq> 0 \<longrightarrow>
              fst (adicionar_registro env db usr form) =
                RegistroSalvo (py_strip (form_get form ''carteirinha'' []))
                  (py_strip (form_get form ''unidade'' []))
                  (length (processar_senhas (form_get form ''senhas'' [])))
              \<and> map r_senhas (registros (snd (adicionar_registro env db usr form))) =
                  map r_senhas (registros db) @
                    [json_dumps (processar_senhas (form_get form ''senhas'' []))]))
    \<and> processar_senhas ''a, ,b'' = [''a'', ''b'']"
proof -
  let ?s = "processar_senhas (form_get form ''senhas'' [])"
  note eq = adicionar_registro_senhas [OF assms, of env db]
  have a: "processar_senhas raw = normalizar_senhas_spec raw" by (rule processar_senhas_spec)
  have b: "(\<forall>x\<in>set xs. CHR '','' \<notin> set x) \<longrightarrow>
         processar_senhas (py_join '','' xs) = filter (\<lambda>s. s \<noteq> []) (map py_strip xs)"
    using processar_senhas_join by blast
  have c: "length ?s = 0 \<longrightarrow> adicionar_registro env db usr form = (MinimoSenhas, db)"
    using eq by (simp add: Let_def)
  have d: "length ?s > 5 \<longrightarrow> adicionar_registro env db usr form = (MaximoSenhas, db)"
    using eq by (simp add: Let_def)
  have e1: "1 \<le> length ?s \<and> length ?s \<le> 5 \<longrightarrow>
         fst (adicionar_registro env db usr form) \<noteq> MinimoSenhas
         \<and> fst (adicionar_registro env db usr form) \<noteq> MaximoSenhas"
    using eq by (auto simp add: Let_def split: prod.splits)
  have e2: "1 \<le> length ?s \<and> length ?s \<le> 5 \<longrightarrow>
         (connection_string env \<noteq> [] \<and> conexao_ok env \<and> escrita_ok env \<and> usr_id usr \<noteq> 0 \<longrightarrow>
              fst (adicionar_registro env db usr form) =
                RegistroSalvo (py_strip (form_get form ''carteirinha'' []))
                  (py_strip (form_get form ''unidade'' [])) (length ?s)
              \<and> map r_senhas (registros (snd (adicionar_registro env db usr form))) =
                  map r_senhas (registros db) @ [json_dumps ?s])"
  proof (intro impI)
    assume n: "1 \<le> length ?s \<and> length ?s \<le> 5"
      and h: "connection_string env \<noteq> [] \<and> conexao_ok env \<and> escrita_ok env \<and> usr_id usr \<noteq> 0"
    from n have ne: "?s \<noteq> []" by auto
    from inserir_registro_sucesso [OF carteirinha unidade ne, of "usr_id usr" env db] n h
    show "fst (adicionar_registro env db usr form) =
                RegistroSalvo (py_strip (form_get form ''carteirinha'' []))
                  (py_strip (form_get form ''unidade'' [])) (length ?s)
              \<and> map r_senhas (registros (snd (adicionar_registro env db usr form))) =
                  map r_senhas (registros db) @ [json_dumps ?s]"
      using eq ne by (simp add: Let_def)
  qed
  have f: "processar_senhas ''a, ,b'' = [''a'', ''b'']"
    by (simp add: processar_senhas_def py_strip_def py_isspace_def)
  from a b c d e1 e2 f show ?thesis by blast
qed

text \<open>
  The theorem at concrete requests of an operator of Belo Horizonte: no entry, six
  entries, and three entries with a duplicate.
\<close>

theorem C2_senhas_witness:
  "adicionar_registro plataforma_exemplo banco_vazio operador_bh
      (formulario_registro ''C100'' ''Belo Horizonte'' '' , ,'') = (MinimoSenhas, banco_vazio)
   \<and> adicionar_registro plataforma_exemplo banco_vazio operador_bh
      (formulario_registro ''C100'' ''Belo Horizonte'' ''1,2,3,4,5,6'') = (MaximoSenhas, banco_vazio)
   \<and> fst (adicionar_registro plataforma_exemplo banco_vazio operador_bh
        (formulario_registro ''C100'' ''Belo Horizonte'' ''111, 222,111'')) =
       RegistroSalvo ''C100'' ''Belo Horizonte'' 3
   \<and> map r_senhas (registros (snd (adicionar_registro plataforma_exemplo banco_vazio operador_bh
        (formulario_registro ''C100'' ''Belo Horizonte'' ''111, 222,111'')))) =
       [json_dumps [''111'', ''222'', ''111'']]
   \<and> processar_senhas (py_join '','' [''b'', '' a'', ''b'']) = [''b'', ''a'', ''b'']"
proof -
  have c: "py_strip (form_get (formulario_registro ''C100'' ''Belo Horizonte'' s) ''carteirinha'' []) \<noteq> []"
    for s by (simp add: formulario_registro_get py_strip_def py_isspace_def)
  have u: "py_strip (form_get (formulario_registro ''C100'' ''Belo Horizonte'' s) ''unidade'' []) \<noteq> []"
    for s by (simp add: formulario_registro_get py_strip_def py_isspace_def)
  have p: "is_admin operador_bh
      \<or> usr_unidade operador_bh =
          py_strip (form_get (formulario_registro ''C100'' ''Belo Horizonte'' s) ''unidade'' [])
      \<or> usr_unidade operador_bh = ''Ambas''"
    for s by (simp add: formulario_registro_get py_strip_def py_isspace_def operador_bh_def)
  have s0: "processar_senhas '' , ,'' = []"
    by (simp add: processar_senhas_def py_strip_def py_isspace_def)
  have s6: "processar_senhas ''1,2,3,4,5,6'' = [''1'', ''2'', ''3'', ''4'', ''5'', ''6'']"
    by (simp add: processar_senhas_def py_strip_def py_isspace_def)
  have s3: "processar_senhas ''111, 222,111'' = [''111'', ''222'', ''111'']"
    by (simp add: processar_senhas_def py_strip_def py_isspace_def)
  have st: "py_strip ''C100'' = ''C100''" "py_strip ''Belo Horizonte'' = ''Belo Horizonte''"
    "py_strip ''b'' = ''b''" "py_strip '' a'' = ''a''"
    by (simp_all add: py_strip_def py_isspace_def)
  have env: "connection_string plataforma_exemplo \<noteq> []" "conexao_ok plataforma_exemplo"
    "escrita_ok plataforma_exemplo" "usr_id operador_bh \<noteq> 0" "registros banco_vazio = []"
    by (simp_all add: plataforma_exemplo_def operador_bh_def banco_vazio_def)
  from C2_senhas [OF c [of "'' , ,''"] u [of "'' , ,''"] p [of "'' , ,''"], where env = plataforma_exemplo and db = banco_vazio and raw = "[]"]
  have r0: "adicionar_registro plataforma_exemplo banco_vazio operador_bh
      (formulario_registro ''C100'' ''Belo Horizonte'' '' , ,'') = (MinimoSenhas, banco_vazio)"
    by (simp add: formulario_registro_get s0)
  from C2_senhas [OF c [of "''1,2,3,4,5,6''"] u [of "''1,2,3,4,5,6''"] p [of "''1,2,3,4,5,6''"], where env = plataforma_exemplo and db = banco_vazio and raw = "[]"]
  have r6: "adicionar_registro plataforma_exemplo banco_vazio operador_bh
      (formulario_registro ''C100'' ''Belo Horizonte'' ''1,2,3,4,5,6'') = (MaximoSenhas, banco_vazio)"
    by (simp add: formulario_registro_get s6)
  from C2_senhas [OF c [of "''111, 222,111''"] u [of "''111, 222,111''"] p [of "''111, 222,111''"], where env = plataforma_exemplo and db = banco_vazio and raw = "[]"
      and xs = "[''b'', '' a'', ''b'']"]
  have r3: "fst (adicionar_registro plataforma_exemplo banco_vazio operador_bh
        (formulario_registro ''C100'' ''Belo Horizonte'' ''111, 222,111'')) =
       RegistroSalvo ''C100'' ''Belo Horizonte'' 3
   \<and> map r_senhas (registros (snd (adicionar_registro plataforma_exemplo banco_vazio operador_bh
        (formulario_registro ''C100'' ''Belo Horizonte'' ''111, 222,111'')))) =
       [json_dumps [''111'', ''222'', ''111'']]
   \<and> processar_senhas (py_join '','' [''b'', '' a'', ''b'']) = [''b'', ''a'', ''b'']"
    by (simp add: formulario_registro_get s3 st env)
  from r0 r6 r3 show ?thesis by blast
qed

subsection \<open>C3: the export of an operator of both units\<close>

text \<open>
  Claim C3 fails on the code. An operator whose unit is Ambas exports the records
  whose unit column is the text Ambas: on a store holding one record of Belo Horizonte
  and one of Contagem the export has the header and no row, while the records view of
  the same operator lists both records.
\<close>

theorem C3_exportar_ambas:
  "\<not> is_admin operador_ambas \<and> usr_unidade operador_ambas = ''Ambas''
   \<and> exportar_dados plataforma_exemplo banco_duas_unidades operador_ambas =
       RespostaCsv [cabecalho_csv]
   \<and> visualizar_registros plataforma_exemplo banco_duas_unidades operador_ambas Map.empty =
       PaginaRegistros (obter_todos_registros plataforma_exemplo banco_duas_unidades)
         Map.empty []
   \<and> length (obter_todos_registros plataforma_exemplo banco_duas_unidades) = 2"
proof -
  have u: "\<not> is_admin operador_ambas \<and> usr_unidade operador_ambas = ''Ambas''"
    by (simp add: is_admin_def operador_ambas_def)
  then have v: "visualizar_registros plataforma_exemplo banco_duas_unidades operador_ambas
        Map.empty =
       PaginaRegistros (obter_todos_registros plataforma_exemplo banco_duas_unidades)
         Map.empty []"
    by (simp add: visualizar_registros_def Let_def form_get_def
        contar_registros_por_unidade_vazio)
  have n: "length (obter_todos_registros plataforma_exemplo banco_duas_unidades) = 2"
    by (simp add: obter_todos_exemplo)
  from u v n exportar_ambas_exemplo show ?thesis by blast
qed

subsection \<open>C4: the count by unit\<close>

lemma agrupar_exemplo:
  "agrupar_por_unidade (registros banco_duas_unidades) =
     [[SText ''Belo Horizonte'', SInt 1], [SText ''Contagem'', SInt 1]]"
  by code_simp

text \<open>
  Claim C4 fails on the code. On a store holding one record of Belo Horizonte and one
  of Contagem the grouping query gives one row of two columns for each unit, and the
  loop reads column 2 of such a row: the IndexError is caught by the function's handler,
  which returns the empty dict. The key Belo Horizonte is absent from the result.
\<close>

theorem C4_contagem_vazia:
  "agrupar_por_unidade (registros banco_duas_unidades) =
     [[SText ''Belo Horizonte'', SInt 1], [SText ''Contagem'', SInt 1]]
   \<and> contar_registros_por_unidade plataforma_exemplo banco_duas_unidades = Map.empty
   \<and> contar_registros_por_unidade plataforma_exemplo banco_duas_unidades
        (SText ''Belo Horizonte'') = None"
  by (simp add: agrupar_exemplo contar_registros_por_unidade_vazio)

subsection \<open>C5: the invariant of stored records\<close>

text \<open>
  Claim C5, as the code has it. A stored record is well formed when its password
  column is the encoding of a list of one to five passwords and its unit is not empty.
  Both create operations, \<open>inserir_registro\<close> and the request handler
  \<open>adicionar_registro\<close>, keep every stored record well formed, for every input, user
  and state of the platform. A create request of a non-admin user whose unit is Belo
  Horizonte or Contagem also keeps the invariant of the data model, the unit being one
  of these two: the handler stores such a user's own unit only.
\<close>

theorem C5_criacao_preserva:
  assumes "\<forall>r\<in>set (registros db). registro_bem_formado r"
  shows "(\<forall>r\<in>set (registros (snd (inserir_registro env db carteirinha unidade senhas usuario_id))).
            registro_bem_formado r)
    \<and> (\<forall>r\<in>set (registros (snd (adicionar_registro env db usr form))). registro_bem_formado r)
    \<and> (\<not> is_admin usr
        \<and> (usr_unidade usr = ''Belo Horizonte'' \<or> usr_unidade usr = ''Contagem'')
        \<and> (\<forall>r\<in>set (registros db). invariante_registro_spec r)
        \<longrightarrow> (\<forall>r\<in>set (registros (snd (adicionar_registro env db usr form))).
               invariante_registro_spec r))"
proof -
  have a: "\<forall>r\<in>set (registros (snd (inserir_registro env db carteirinha unidade senhas usuario_id))).
            registro_bem_formado r"
    using inserir_registro_efeito [of env db carteirinha unidade senhas usuario_id] assms
    by (auto simp add: registro_bem_formado_def)
  have b: "\<forall>r\<in>set (registros (snd (adicionar_registro env db usr form))). registro_bem_formado r"
    using adicionar_registro_efeito [of env db usr form] assms
    by (auto simp add: registro_bem_formado_def)
  have c: "\<forall>r\<in>set (registros (snd (adicionar_registro env db usr form))).
               invariante_registro_spec r"
    if "\<not> is_admin usr" "usr_unidade usr = ''Belo Horizonte'' \<or> usr_unidade usr = ''Contagem''"
      "\<forall>r\<in>set (registros db). invariante_registro_spec r"
    using adicionar_registro_efeito [of env db usr form] that
    by (auto simp add: invariante_registro_spec_def)
  from a b c show ?thesis by blast
qed

text \<open>
  Claim C5 as stated fails: the admin submits the unit Ambas, the record is saved, and
  the store, where the invariant of the data model held, now holds a record whose unit
  is neither concrete unit.
\<close>

theorem C5_counterexample:
  "list_all invariante_registro_spec (registros banco_vazio)
   \<and> fst (adicionar_registro plataforma_exemplo banco_vazio administrador
        (formulario_registro ''C300'' ''Ambas'' ''x1'')) = RegistroSalvo ''C300'' ''Ambas'' 1
   \<and> \<not> list_all invariante_registro_spec
        (registros (snd (adicionar_registro plataforma_exemplo banco_vazio administrador
           (formulario_registro ''C300'' ''Ambas'' ''x1''))))"
proof -
  let ?db = "snd (adicionar_registro plataforma_exemplo banco_vazio administrador
           (formulario_registro ''C300'' ''Ambas'' ''x1''))"
  have a: "list_all invariante_registro_spec (registros banco_vazio)"
    by (simp add: banco_vazio_def)
  have b: "fst (adicionar_registro plataforma_exemplo banco_vazio administrador
        (formulario_registro ''C300'' ''Ambas'' ''x1'')) = RegistroSalvo ''C300'' ''Ambas'' 1"
    by code_simp
  have "map r_unidade (registros ?db) = [''Ambas'']"
    by code_simp
  then obtain row where row: "registros ?db = [row]" "r_unidade row = ''Ambas''"
    by (auto simp add: map_eq_Cons_conv)
  have "\<not> invariante_registro_spec row"
    by (simp add: invariante_registro_spec_def row(2))
  then have c: "\<not> list_all invariante_registro_spec (registros ?db)"
    by (simp add: row(1))
  from a b c show ?thesis by blast
qed

lemma banco_duas_unidades_invariante:
  "\<forall>r\<in>set (registros banco_duas_unidades). invariante_registro_spec r"
proof -
  have 1: "\<exists>senhas. json_dumps [''111'', ''222'', ''333''] = json_dumps senhas
      \<and> 1 \<le> length senhas \<and> length senhas \<le> 5"
    by (rule exI [of _ "[''111'', ''222'', ''333'']"]) simp
  have 2: "\<exists>senhas. json_dumps [''abc''] = json_dumps senhas
      \<and> 1 \<le> length senhas \<and> length senhas \<le> 5"
    by (rule exI [of _ "[''abc'']"]) simp
  from 1 2 show ?thesis
    by (simp add: banco_duas_unidades_def invariante_registro_spec_def)
qed

lemma invariante_bem_formado: "invariante_registro_spec r \<Longrightarrow> registro_bem_formado r"
  by (auto simp add: invariante_registro_spec_def registro_bem_formado_def)

text \<open>
  On a store holding a record of each unit: a create by an operator of Belo Horizonte,
  a create by the admin with the unit Ambas, and a direct insert of six passwords, which
  is refused.
\<close>

theorem C5_criacao_preserva_witness:
  "list_all invariante_registro_spec
     (registros (snd (adicionar_registro plataforma_exemplo banco_duas_unidades operador_bh
        (formulario_registro ''C300'' ''Belo Horizonte'' ''x1,x2''))))
   \<and> length (registros (snd (adicionar_registro plataforma_exemplo banco_duas_unidades
        operador_bh (formulario_registro ''C300'' ''Belo Horizonte'' ''x1,x2'')))) = 3
   \<and> list_all registro_bem_formado
     (registros (snd (adicionar_registro plataforma_exemplo banco_duas_unidades administrador
        (formulario_registro ''C300'' ''Ambas'' ''x1''))))
   \<and> list_all registro_bem_formado
     (registros (snd (inserir_registro plataforma_exemplo banco_duas_unidades ''C400''
        ''Ambas'' [''a'', ''b'', ''c'', ''d'', ''e'', ''f''] 1)))"
proof -
  have h: "\<forall>r\<in>set (registros banco_duas_unidades). registro_bem_formado r"
    using banco_duas_unidades_invariante invariante_bem_formado by blast
  have u: "\<not> is_admin operador_bh"
    "usr_unidade operador_bh = ''Belo Horizonte'' \<or> usr_unidade operador_bh = ''Contagem''"
    by (simp_all add: is_admin_def operador_bh_def)
  have n: "length (registros (snd (adicionar_registro plataforma_exemplo banco_duas_unidades
        operador_bh (formulario_registro ''C300'' ''Belo Horizonte'' ''x1,x2'')))) = 3"
    by code_simp
  from C5_criacao_preserva [OF h, where env = plataforma_exemplo and usr = operador_bh
      and form = "formulario_registro ''C300'' ''Belo Horizonte'' ''x1,x2''"]
    u banco_duas_unidades_invariante
  have 1: "list_all invariante_registro_spec
     (registros (snd (adicionar_registro plataforma_exemplo banco_duas_unidades operador_bh
        (formulario_registro ''C300'' ''Belo Horizonte'' ''x1,x2''))))"
    by (simp add: list_all_iff)
  from C5_criacao_preserva [OF h, where env = plataforma_exemplo and usr = administrador
      and form = "formulario_registro ''C300'' ''Ambas'' ''x1''"
      and carteirinha = "''C400''" and unidade = "''Ambas''"
      and senhas = "[''a'', ''b'', ''c'', ''d'', ''e'', ''f'']" and usuario_id = 1]
  have 2: "list_all registro_bem_formado
     (registros (snd (adicionar_registro plataforma_exemplo banco_duas_unidades administrador
        (formulario_registro ''C300'' ''Ambas'' ''x1''))))
   \<and> list_all registro_bem_formado
     (registros (snd (inserir_registro plataforma_exemplo banco_duas_unidades ''C400''
        ''Ambas'' [''a'', ''b'', ''c'', ''d'', ''e'', ''f''] 1)))"
    by (simp add: list_all_iff)
  from 1 n 2 show ?thesis by blast
qed

subsection \<open>C6: a failing update of the last login\<close>

text \<open>
  Claim C6, as the code has it. For correct credentials of an active account, with the
  store reachable and the lookup answered, \<open>validar_login\<close> returns the identity
  and records the login time when the update of \<open>ultimo_login\<close> executes. When that
  update fails, the exception reaches the handler of the whole function: the login
  returns no identity and the store is left as it was.
\<close>

theorem C6_login_e_ultimo_login:
  assumes "connection_string env \<noteq> []" "conexao_ok env" "consulta_ok env"
    and "find (\<lambda>u. u_username u = username \<and> u_ativo u = 1) (usuarios db) = Some user"
    and "check_password_hash env (u_password_hash user) password"
  shows "(escrita_ok env \<longrightarrow>
            validar_login env db username password =
              (Some \<lparr>ud_id = u_id user, ud_username = u_username user,
                     ud_nome_completo = u_nome_completo user, ud_unidade = u_unidade user,
                     ud_tipo_usuario = u_tipo_usuario user\<rparr>,
               db\<lparr>usuarios :=
                    map (\<lambda>u. if u_id u = u_id user
                              then u\<lparr>u_ultimo_login := Some (agora env)\<rparr> else u)
                        (usuarios db)\<rparr>))
       \<and> (\<not> escrita_ok env \<longrightarrow> validar_login env db username password = (None, db))"
  using validar_login_credenciais [OF assms] by simp

text \<open>
  The login of \<open>op1\<close> with a working update and with a failing one.
\<close>

theorem C6_login_e_ultimo_login_witness:
  "fst (validar_login plataforma_exemplo banco_usuarios ''op1'' ''segredo'') =
       Some \<lparr>ud_id = 2, ud_username = ''op1'', ud_nome_completo = ''Operador Um'',
             ud_unidade = ''Belo Horizonte'', ud_tipo_usuario = ''operador''\<rparr>
   \<and> map u_ultimo_login
        (usuarios (snd (validar_login plataforma_exemplo banco_usuarios ''op1'' ''segredo''))) =
       [None, Some 1000, None]
   \<and> validar_login plataforma_sem_escrita banco_usuarios ''op1'' ''segredo'' =
       (None, banco_usuarios)"
proof -
  have f: "find (\<lambda>u. u_username u = ''op1'' \<and> u_ativo u = 1) (usuarios banco_usuarios) =
      Some linha_op1"
    by (simp add: banco_usuarios_def linha_op1_def)
  have e: "connection_string plataforma_exemplo \<noteq> []" "conexao_ok plataforma_exemplo"
    "consulta_ok plataforma_exemplo" "escrita_ok plataforma_exemplo"
    "check_password_hash plataforma_exemplo (u_password_hash linha_op1) ''segredo''"
    by (simp_all add: plataforma_exemplo_def linha_op1_def)
  have s: "connection_string plataforma_sem_escrita \<noteq> []" "conexao_ok plataforma_sem_escrita"
    "consulta_ok plataforma_sem_escrita" "\<not> escrita_ok plataforma_sem_escrita"
    "check_password_hash plataforma_sem_escrita (u_password_hash linha_op1) ''segredo''"
    by (simp_all add: plataforma_sem_escrita_def plataforma_exemplo_def linha_op1_def)
  have a: "agora plataforma_exemplo = 1000" by (simp add: plataforma_exemplo_def)
  from C6_login_e_ultimo_login [OF e(1-3) f e(5)] e(4)
  have 1: "fst (validar_login plataforma_exemplo banco_usuarios ''op1'' ''segredo'') =
       Some \<lparr>ud_id = 2, ud_username = ''op1'', ud_nome_completo = ''Operador Um'',
             ud_unidade = ''Belo Horizonte'', ud_tipo_usuario = ''operador''\<rparr>
   \<and> map u_ultimo_login
        (usuarios (snd (validar_login plataforma_exemplo banco_usuarios ''op1'' ''segredo''))) =
       [None, Some 1000, None]"
    by (simp add: linha_op1_def banco_usuarios_def a)
  from C6_login_e_ultimo_login [OF s(1-3) f s(5)] s(4)
  have 2: "validar_login plataforma_sem_escrita banco_usuarios ''op1'' ''segredo'' =
       (None, banco_usuarios)"
    by simp
  from 1 2 show ?thesis by blast
qed

text \<open>
  Claim C6 as stated fails: with the update failing, the login of the active
  operator \<open>op1\<close> with the right password returns no identity, while the same login
  succeeds when the update executes.
\<close>

theorem C6_counterexample:
  "validar_login plataforma_sem_escrita banco_usuarios ''op1'' ''segredo'' = (None, banco_usuarios)
   \<and> fst (validar_login plataforma_exemplo banco_usuarios ''op1'' ''segredo'') =
       Some \<lparr>ud_id = 2, ud_username = ''op1'', ud_nome_completo = ''Operador Um'',
             ud_unidade = ''Belo Horizonte'', ud_tipo_usuario = ''operador''\<rparr>"
  by (simp add: validar_login_def validar_login_corpo_def atualizar_ultimo_login_def
      exc_bind_def get_connection_def executar_consulta_def executar_escrita_def
      plataforma_sem_escrita_def plataforma_exemplo_def banco_usuarios_def)

subsection \<open>C7: one unreadable record among the stored ones\<close>

text \<open>
  Claim C7 fails on the code. The listing loop skips a row whose decoding raises a
  JSONDecodeError, a TypeError or a ValueError: of three stored records, the newest
  truncated, the listing holds the other two. Two cases are missed. Of two stored
  records one is truncated and the other decodes to the list of two numbers: the
  listing holds this record, and the admin's export, whose join meets a number, answers
  with the error redirect and no row. Of two stored records the newer is a thousand
  opening brackets, on which the decoder raises a RecursionError: the exception leaves
  the loop, the listing is empty and the export holds the header alone.
\<close>

theorem C7_linha_ilegivel_aborta:
  "map reg_id (obter_todos_registros plataforma_exemplo banco_corrompido) = [2, 1]
   \<and> json_loads plataforma_exemplo ''[111, '' = Inl JSONDecodeError
   \<and> json_loads plataforma_exemplo ''[1, 2]'' = Inr (PList [PInt 1, PInt 2])
   \<and> map reg_id (obter_todos_registros plataforma_exemplo banco_lista_numeros) = [1]
   \<and> exportar_dados plataforma_exemplo banco_lista_numeros administrador = ErroExportar
   \<and> json_loads plataforma_recursao (json_dumps [''abc'']) = Inr (PList [PStr ''abc''])
   \<and> json_loads plataforma_recursao (replicate 1000 (CHR ''['')) = Inl RecursionError
   \<and> obter_todos_registros plataforma_recursao banco_recursao = []
   \<and> exportar_dados plataforma_recursao banco_recursao administrador =
       RespostaCsv [cabecalho_csv]"
  by code_simp

subsection \<open>C8: a deactivated account cannot log in\<close>

text \<open>
  Claim C8. Usernames being unique in the table, a login under the username of an
  account whose \<open>ativo\<close> is 0 returns no identity and leaves the store as it was,
  for every password, the right one included, and in every state of the platform.
\<close>

theorem C8_conta_desativada:
  assumes "distinct (map u_username (usuarios db))"
    and "conta \<in> set (usuarios db)" and "u_username conta = username" and "u_ativo conta = 0"
  shows "validar_login env db username password = (None, db)"
proof -
  have "\<not> (u_username u = username \<and> u_ativo u = 1)" if "u \<in> set (usuarios db)" for u
  proof
    assume h: "u_username u = username \<and> u_ativo u = 1"
    from assms(1) have "inj_on u_username (set (usuarios db))" by (simp add: distinct_map)
    with that assms(2,3) h have "u = conta" by (auto dest: inj_onD)
    with h assms(4) show False by simp
  qed
  then have "find (\<lambda>u. u_username u = username \<and> u_ativo u = 1) (usuarios db) = None"
    by (simp add: find_None_iff)
  then show ?thesis by (rule validar_login_sem_linha)
qed

text \<open>
  The deactivated operator \<open>op3\<close> with the password that matches the stored hash.
\<close>

theorem C8_conta_desativada_witness:
  "check_password_hash plataforma_exemplo (u_password_hash linha_op3) ''senha3''
   \<and> linha_op3 \<in> set (usuarios banco_usuarios)
   \<and> validar_login plataforma_exemplo banco_usuarios ''op3'' ''senha3'' = (None, banco_usuarios)"
proof -
  have d: "distinct (map u_username (usuarios banco_usuarios))"
    by (simp add: banco_usuarios_def)
  have m: "linha_op3 \<in> set (usuarios banco_usuarios)"
    by (simp add: banco_usuarios_def linha_op3_def)
  have n: "u_username linha_op3 = ''op3''" "u_ativo linha_op3 = 0"
    by (simp_all add: linha_op3_def)
  have c: "check_password_hash plataforma_exemplo (u_password_hash linha_op3) ''senha3''"
    by (simp add: plataforma_exemplo_def linha_op3_def)
  from C8_conta_desativada [OF d m n, of plataforma_exemplo "''senha3''"] c m
  show ?thesis by simp
qed

subsection \<open>C9: a username is created once\<close>

text \<open>
  Claim C9. When the table already holds a user of that username, \<open>criar_usuario\<close>
  returns False (a value, no exception leaves the function) and the store is the one
  it was given: no row is added and none is changed. This holds whatever the other
  fields are and in every state of the platform.
\<close>

theorem C9_username_repetido:
  assumes "username \<in> set (map u_username (usuarios db))"
  shows "criar_usuario env db username password nome_completo unidade tipo_usuario = (False, db)"
proof -
  from assms have "filter (\<lambda>u. u_username u = username) (usuarios db) \<noteq> []"
    by (auto simp add: filter_empty_conv)
  then show ?thesis
    by (simp add: criar_usuario_def criar_usuario_corpo_def exc_bind_def split: sum.splits)
qed

text \<open>
  Creating \<open>op1\<close> in an empty store succeeds; creating \<open>op1\<close> again fails and
  keeps the store of the first creation.
\<close>

theorem C9_username_repetido_witness:
  "fst (criar_usuario plataforma_exemplo banco_vazio ''op1'' ''segredo'' ''Operador Um''
          ''Belo Horizonte'' ''operador'') = True
   \<and> criar_usuario plataforma_exemplo
        (snd (criar_usuario plataforma_exemplo banco_vazio ''op1'' ''segredo'' ''Operador Um''
                ''Belo Horizonte'' ''operador''))
        ''op1'' ''outra'' ''Outro Nome'' ''Contagem'' ''admin'' =
      (False, snd (criar_usuario plataforma_exemplo banco_vazio ''op1'' ''segredo''
                ''Operador Um'' ''Belo Horizonte'' ''operador''))"
proof -
  have v: "''op1'' \<notin> set (map u_username (usuarios banco_vazio))"
    by (simp add: banco_vazio_def)
  note c = criar_usuario_sucesso [OF plataforma_exemplo_ok v, of "''segredo''" "''Operador Um''"
      "''Belo Horizonte''" "''operador''"]
  have m: "''op1'' \<in> set (map u_username (usuarios (snd (criar_usuario plataforma_exemplo
      banco_vazio ''op1'' ''segredo'' ''Operador Um'' ''Belo Horizonte'' ''operador''))))"
    by (simp add: c)
  from C9_username_repetido [OF m, of plataforma_exemplo "''outra''" "''Outro Nome''"
      "''Contagem''" "''admin''"] c
  show ?thesis by simp
qed

subsection \<open>C10: an operator of an unknown unit sees every record\<close>

text \<open>
  Claim C10. For a non-admin user whose unit is none of Belo Horizonte, Contagem and
  Ambas, the records view shows the full listing \<open>obter_todos_registros\<close>, the
  records of every unit, whatever the request asks for. Such a user can exist: the
  admin's create-user request stores the submitted unit, trimmed, without comparing it
  with the known units.
\<close>

theorem C10_unidade_desconhecida:
  assumes "\<not> is_admin usr"
    and "usr_unidade usr \<noteq> ''Belo Horizonte''" "usr_unidade usr \<noteq> ''Contagem''"
    and "usr_unidade usr \<noteq> ''Ambas''"
  shows "visualizar_registros env db usr args =
           PaginaRegistros (obter_todos_registros env db)
             (contar_registros_por_unidade env db) (usr_unidade usr)
    \<and> (is_admin adm
        \<and> py_strip (form_get form ''username'' []) \<noteq> []
        \<and> 4 \<le> length (py_strip (form_get form ''password'' []))
        \<and> py_strip (form_get form ''nome_completo'' []) \<noteq> []
        \<and> py_strip (form_get form ''unidade'' []) \<noteq> []
        \<and> py_strip (form_get form ''username'' []) \<notin> set (map u_username (usuarios db))
        \<and> connection_string env \<noteq> [] \<and> conexao_ok env \<and> consulta_ok env \<and> escrita_ok env
        \<longrightarrow>
          fst (app_criar_usuario env db adm POST form) =
            UsuarioCriado (py_strip (form_get form ''username'' []))
          \<and> map u_unidade (usuarios (snd (app_criar_usuario env db adm POST form))) =
              map u_unidade (usuarios db) @ [py_strip (form_get form ''unidade'' [])])"
proof -
  have v: "visualizar_registros env db usr args =
           PaginaRegistros (obter_todos_registros env db)
             (contar_registros_por_unidade env db) (usr_unidade usr)"
    using assms by (auto simp add: visualizar_registros_def Let_def)
  have c: "fst (app_criar_usuario env db adm POST form) =
            UsuarioCriado (py_strip (form_get form ''username'' []))
          \<and> map u_unidade (usuarios (snd (app_criar_usuario env db adm POST form))) =
              map u_unidade (usuarios db) @ [py_strip (form_get form ''unidade'' [])]"
    if h: "is_admin adm"
      "py_strip (form_get form ''username'' []) \<noteq> []"
      "4 \<le> length (py_strip (form_get form ''password'' []))"
      "py_strip (form_get form ''nome_completo'' []) \<noteq> []"
      "py_strip (form_get form ''unidade'' []) \<noteq> []"
      "py_strip (form_get form ''username'' []) \<notin> set (map u_username (usuarios db))"
      "connection_string env \<noteq> []" "conexao_ok env" "consulta_ok env" "escrita_ok env"
  proof -
    from h(3) have p: "py_strip (form_get form ''password'' []) \<noteq> []" by auto
    from criar_usuario_sucesso [OF h(7) h(8) h(9) h(10) h(6)] h p show ?thesis
      by (simp add: app_criar_usuario_def Let_def)
  qed
  from v c show ?thesis by blast
qed

text \<open>
  An operator of unit Betim sees the records of Belo Horizonte and of Contagem, and the
  admin can create such an operator.
\<close>

theorem C10_unidade_desconhecida_witness:
  "visualizar_registros plataforma_exemplo banco_duas_unidades operador_sem_unidade
       [''unidade'' \<mapsto> ''Contagem''] =
     PaginaRegistros
       [\<lparr>reg_id = 2, reg_carteirinha = ''C200'', reg_unidade = ''Contagem'',
         reg_senhas = PList [PStr ''abc''], reg_usuario_id = 1,
         reg_data_criacao = 20, reg_total_senhas = 1\<rparr>,
        \<lparr>reg_id = 1, reg_carteirinha = ''C100'', reg_unidade = ''Belo Horizonte'',
         reg_senhas = PList [PStr ''111'', PStr ''222'', PStr ''333''], reg_usuario_id = 2,
         reg_data_criacao = 10, reg_total_senhas = 3\<rparr>]
       Map.empty ''Betim''
   \<and> fst (app_criar_usuario plataforma_exemplo banco_duas_unidades administrador POST
          (formulario_usuario ''op2'' ''segredo'' ''Operador Dois'' ''Betim'')) =
       UsuarioCriado ''op2''
   \<and> map u_unidade (usuarios (snd (app_criar_usuario plataforma_exemplo banco_duas_unidades
          administrador POST (formulario_usuario ''op2'' ''segredo'' ''Operador Dois'' ''Betim'')))) =
       [''Betim'']"
proof -
  have a: "\<not> is_admin operador_sem_unidade" "usr_unidade operador_sem_unidade \<noteq> ''Belo Horizonte''"
    "usr_unidade operador_sem_unidade \<noteq> ''Contagem''" "usr_unidade operador_sem_unidade \<noteq> ''Ambas''"
    by (simp_all add: is_admin_def operador_sem_unidade_def)
  have u: "usr_unidade operador_sem_unidade = ''Betim''" by (simp add: operador_sem_unidade_def)
  have g: "form_get (formulario_usuario n p c un) ''username'' [] = n"
    "form_get (formulario_usuario n p c un) ''password'' [] = p"
    "form_get (formulario_usuario n p c un) ''nome_completo'' [] = c"
    "form_get (formulario_usuario n p c un) ''unidade'' [] = un" for n p c un
    by (simp_all add: form_get_def formulario_usuario_def)
  have st: "py_strip ''op2'' = ''op2''" "py_strip ''segredo'' = ''segredo''"
    "py_strip ''Operador Dois'' = ''Operador Dois''" "py_strip ''Betim'' = ''Betim''"
    by (simp_all add: py_strip_def py_isspace_def)
  have adm: "is_admin administrador" by (simp add: is_admin_def administrador_def)
  have db: "usuarios banco_duas_unidades = []" by (simp add: banco_duas_unidades_def)
  from C10_unidade_desconhecida [OF a, where env = plataforma_exemplo
      and db = banco_duas_unidades and args = "[''unidade'' \<mapsto> ''Contagem'']"
      and adm = administrador
      and form = "formulario_usuario ''op2'' ''segredo'' ''Operador Dois'' ''Betim''"]
  show ?thesis
    by (simp add: u g st adm db plataforma_exemplo_ok obter_todos_exemplo
        contar_registros_por_unidade_vazio)
qed

end
